theory Spec2Isabelle
  imports Main "HOL-Library.AList"
begin

section \<open>Python values\<close>

text \<open>
  The framework in \<^verbatim>\<open>PyLambdAPI/lambda_flask.py\<close> is dynamically typed: events, request
  parameters, handler results and envelopes are ordinary Python objects. They are
  embedded in one datatype. A \<^verbatim>\<open>dict\<close> is an association list in insertion order whose
  keys are strings (as in every JSON object); a \<^verbatim>\<open>str\<close> is a list of code points below
  256. \<open>VResponse\<close> is an instance of the class \<^verbatim>\<open>Response\<close>; its five arguments are the
  attributes \<^verbatim>\<open>statusCode\<close>, \<^verbatim>\<open>body\<close>, \<^verbatim>\<open>headers\<close>, \<^verbatim>\<open>body_encoded\<close> and
  \<^verbatim>\<open>isApiGatewayEvent\<close>, in this order. Floats are not modelled.
\<close>

datatype pyval =
    VNone
  | VBool bool
  | VInt int
  | VStr string
  | VBytes string
  | VList "pyval list"
  | VDict "(string \<times> pyval) list"
  | VResponse pyval pyval pyval pyval pyval

text \<open>
  A raised exception: its class name and the value of \<^verbatim>\<open>str(e)\<close>. \<open>Exn\<close> is an instance of
  a subclass of \<^verbatim>\<open>Exception\<close>, which a clause \<^verbatim>\<open>except Exception\<close> catches; \<open>BaseExn\<close> is an
  instance of a class outside \<^verbatim>\<open>Exception\<close> (\<^verbatim>\<open>SystemExit\<close>, \<^verbatim>\<open>KeyboardInterrupt\<close>,
  \<^verbatim>\<open>GeneratorExit\<close>, or a class of the user derived from \<^verbatim>\<open>BaseException\<close> directly), which
  such a clause lets pass. A computation that may raise returns \<open>exn + 'a\<close>, with \<open>Inl\<close> the
  raised exception.
\<close>

datatype exn = Exn string string | BaseExn string string

fun str_exn :: "exn \<Rightarrow> string" where
  "str_exn (Exn cls msg) = msg"
| "str_exn (BaseExn cls msg) = msg"

text \<open>\<^verbatim>\<open>isinstance(e, Exception)\<close>.\<close>

fun is_Exception :: "exn \<Rightarrow> bool" where
  "is_Exception (Exn cls msg) = True"
| "is_Exception (BaseExn cls msg) = False"

text \<open>Sequencing: the second statement runs on the value of the first unless that raised.\<close>

fun and_then :: "exn + 'a \<Rightarrow> ('a \<Rightarrow> exn + 'b) \<Rightarrow> exn + 'b" where
  "and_then (Inl e) f = Inl e"
| "and_then (Inr v) f = f v"

fun type_name :: "pyval \<Rightarrow> string" where
  "type_name VNone = ''NoneType''"
| "type_name (VBool b) = ''bool''"
| "type_name (VInt i) = ''int''"
| "type_name (VStr s) = ''str''"
| "type_name (VBytes s) = ''bytes''"
| "type_name (VList xs) = ''list''"
| "type_name (VDict kvs) = ''dict''"
| "type_name (VResponse sc b hs be gw) = ''Response''"

definition squote :: "string \<Rightarrow> string" where
  "squote s = CHR 0x27 # s @ [CHR 0x27]"

definition dquote :: "string \<Rightarrow> string" where
  "dquote s = CHR 0x22 # s @ [CHR 0x22]"

text \<open>\<^verbatim>\<open>str(KeyError(k))\<close> is the \<^verbatim>\<open>repr\<close> of the key.\<close>

definition KeyError :: "string \<Rightarrow> exn" where
  "KeyError k = Exn ''KeyError'' (squote k)"

definition TypeError :: "string \<Rightarrow> exn" where
  "TypeError msg = Exn ''TypeError'' msg"

definition ValueError :: "string \<Rightarrow> exn" where
  "ValueError msg = Exn ''ValueError'' msg"

definition AttributeError :: "pyval \<Rightarrow> string \<Rightarrow> exn" where
  "AttributeError v attr =
     Exn ''AttributeError'' (squote (type_name v) @ '' object has no attribute '' @ squote attr)"

text \<open>Truth value of an object, as \<^verbatim>\<open>if x:\<close> and \<^verbatim>\<open>x and y\<close> test it.\<close>

fun truthy :: "pyval \<Rightarrow> bool" where
  "truthy VNone = False"
| "truthy (VBool b) = b"
| "truthy (VInt i) = (i \<noteq> 0)"
| "truthy (VStr s) = (s \<noteq> [])"
| "truthy (VBytes s) = (s \<noteq> [])"
| "truthy (VList xs) = (xs \<noteq> [])"
| "truthy (VDict kvs) = (kvs \<noteq> [])"
| "truthy (VResponse sc b hs be gw) = True"

fun is_str :: "pyval \<Rightarrow> bool" where
  "is_str (VStr s) = True"
| "is_str v = False"


fun is_Response :: "pyval \<Rightarrow> bool" where
  "is_Response (VResponse sc b hs be gw) = True"
| "is_Response v = False"

text \<open>Lists and dicts are unhashable; every other object can be a dictionary key.\<close>

fun hashable :: "pyval \<Rightarrow> bool" where
  "hashable (VList xs) = False"
| "hashable (VDict kvs) = False"
| "hashable v = True"

subsection \<open>Dictionary operations\<close>

text \<open>\<^verbatim>\<open>v[k]\<close> for a string key \<open>k\<close>.\<close>

fun subscript :: "pyval \<Rightarrow> string \<Rightarrow> exn + pyval" where
  "subscript (VDict kvs) k = (case map_of kvs k of None \<Rightarrow> Inl (KeyError k) | Some v \<Rightarrow> Inr v)"
| "subscript (VStr s) k = Inl (TypeError (''string indices must be integers, not '' @ squote ''str''))"
| "subscript (VBytes s) k = Inl (TypeError ''byte indices must be integers or slices, not str'')"
| "subscript (VList xs) k = Inl (TypeError ''list indices must be integers or slices, not str'')"
| "subscript v k = Inl (TypeError (squote (type_name v) @ '' object is not subscriptable''))"

text \<open>\<^verbatim>\<open>v.get(k, default)\<close>: only a dict has the method.\<close>

fun py_get :: "pyval \<Rightarrow> string \<Rightarrow> pyval \<Rightarrow> exn + pyval" where
  "py_get (VDict kvs) k dflt = Inr (case map_of kvs k of None \<Rightarrow> dflt | Some v \<Rightarrow> v)"
| "py_get v k dflt = Inl (AttributeError v ''get'')"

text \<open>
  \<^verbatim>\<open>key in d\<close> followed by \<^verbatim>\<open>d[key]\<close> for a dict \<open>d\<close> with string keys and any object as
  \<open>key\<close>: hashing a list or a dict raises, and an object that is not a string equals no
  string.
\<close>

fun lookup_key :: "(string \<times> 'a) list \<Rightarrow> pyval \<Rightarrow> exn + 'a option" where
  "lookup_key d (VStr s) = Inr (map_of d s)"
| "lookup_key d (VList xs) = Inl (TypeError (''unhashable type: '' @ squote ''list''))"
| "lookup_key d (VDict kvs) = Inl (TypeError (''unhashable type: '' @ squote ''dict''))"
| "lookup_key d v = Inr None"

text \<open>The operand of \<^verbatim>\<open>**\<close> in a dict display must be a mapping.\<close>

fun unpack_mapping :: "pyval \<Rightarrow> exn + (string \<times> pyval) list" where
  "unpack_mapping (VDict kvs) = Inr kvs"
| "unpack_mapping v = Inl (TypeError (squote (type_name v) @ '' object is not a mapping''))"

text \<open>
  \<^verbatim>\<open>{**a, **b}\<close>: the items of \<open>a\<close>, then each item of \<open>b\<close> in order, assigned as
  \<^verbatim>\<open>d[k] = v\<close> (a key already present keeps its position and takes the new value).
\<close>

definition dict_merge :: "(string \<times> pyval) list \<Rightarrow> (string \<times> pyval) list \<Rightarrow> (string \<times> pyval) list" where
  "dict_merge a b = foldl (\<lambda>d (k, v). AList.update k v d) a b"

subsection \<open>The standard library\<close>

text \<open>
  \<^verbatim>\<open>json.dumps\<close> with its default arguments, on the values of the model: separators
  \<^verbatim>\<open>', '\<close> and \<^verbatim>\<open>': '\<close>, ASCII output with the short escapes and \<^verbatim>\<open>\u00XX\<close>, and a
  \<^verbatim>\<open>TypeError\<close> at the first object that is neither a JSON value nor a container.
\<close>

definition hex_digit :: "nat \<Rightarrow> char" where
  "hex_digit n = ''0123456789abcdef'' ! n"

fun digits :: "nat \<Rightarrow> string" where
  "digits n = (if n < 10 then [hex_digit n] else digits (n div 10) @ [hex_digit (n mod 10)])"

declare digits.simps [simp del]

definition str_int :: "int \<Rightarrow> string" where
  "str_int i = (if i < 0 then CHR ''-'' # digits (nat (- i)) else digits (nat i))"

definition escape_char :: "char \<Rightarrow> string" where
  "escape_char c =
     (if c = CHR 0x22 then [CHR 0x5C, CHR 0x22]
      else if c = CHR 0x5C then [CHR 0x5C, CHR 0x5C]
      else if c = CHR 0x0A then [CHR 0x5C, CHR ''n'']
      else if c = CHR 0x0D then [CHR 0x5C, CHR ''r'']
      else if c = CHR 0x09 then [CHR 0x5C, CHR ''t'']
      else if c = CHR 0x08 then [CHR 0x5C, CHR ''b'']
      else if c = CHR 0x0C then [CHR 0x5C, CHR ''f'']
      else if 0x20 \<le> (of_char c :: nat) \<and> (of_char c :: nat) \<le> 0x7E then [c]
      else [CHR 0x5C, CHR ''u'', CHR ''0'', CHR ''0'',
            hex_digit ((of_char c :: nat) div 16), hex_digit ((of_char c :: nat) mod 16)])"

definition encode_basestring :: "string \<Rightarrow> string" where
  "encode_basestring s = dquote (concat (map escape_char s))"

fun join :: "string \<Rightarrow> string list \<Rightarrow> string" where
  "join sep [] = []"
| "join sep [s] = s"
| "join sep (s # t # ss) = s @ sep @ join sep (t # ss)"

fun json_dumps :: "pyval \<Rightarrow> exn + string"
and dumps_list :: "pyval list \<Rightarrow> exn + string list"
and dumps_items :: "(string \<times> pyval) list \<Rightarrow> exn + string list" where
  "json_dumps VNone = Inr ''null''"
| "json_dumps (VBool b) = Inr (if b then ''true'' else ''false'')"
| "json_dumps (VInt i) = Inr (str_int i)"
| "json_dumps (VStr s) = Inr (encode_basestring s)"
| "json_dumps (VBytes s) = Inl (TypeError ''Object of type bytes is not JSON serializable'')"
| "json_dumps (VList xs) =
     (case dumps_list xs of Inl e \<Rightarrow> Inl e | Inr ss \<Rightarrow> Inr (''['' @ join '', '' ss @ '']''))"
| "json_dumps (VDict kvs) =
     (case dumps_items kvs of Inl e \<Rightarrow> Inl e | Inr ss \<Rightarrow> Inr (''{'' @ join '', '' ss @ ''}''))"
| "json_dumps (VResponse sc b hs be gw) =
     Inl (TypeError ''Object of type Response is not JSON serializable'')"
| "dumps_list [] = Inr []"
| "dumps_list (x # xs) =
     (case json_dumps x of Inl e \<Rightarrow> Inl e
      | Inr s \<Rightarrow> (case dumps_list xs of Inl e \<Rightarrow> Inl e | Inr ss \<Rightarrow> Inr (s # ss)))"
| "dumps_items [] = Inr []"
| "dumps_items ((k, v) # kvs) =
     (case json_dumps v of Inl e \<Rightarrow> Inl e
      | Inr s \<Rightarrow> (case dumps_items kvs of Inl e \<Rightarrow> Inl e
                  | Inr ss \<Rightarrow> Inr ((encode_basestring k @ '': '' @ s) # ss)))"

text \<open>
  \<^verbatim>\<open>json.loads\<close> and \<^verbatim>\<open>base64.b64decode\<close> are parameters of the model: each maps its
  argument to the parsed value or to the exception it raises.
\<close>

record pylib =
  json_loads :: "pyval \<Rightarrow> exn + pyval"
  b64decode :: "pyval \<Rightarrow> exn + pyval"

section \<open>Response\<close>

text \<open>
  \<^verbatim>\<open>Response.json\<close>: the envelope \<^verbatim>\<open>{'statusCode': ..., 'body': ...}\<close>. With the
  gateway flag set, a body that is not a \<^verbatim>\<open>str\<close> is serialised by \<^verbatim>\<open>json.dumps\<close>,
  which may raise. An object of another class has no method \<^verbatim>\<open>json\<close>.
\<close>

fun Response_json :: "pyval \<Rightarrow> exn + pyval" where
  "Response_json (VResponse sc b hs be gw) =
     (if truthy gw then
        (if is_str b then Inr (VDict [(''statusCode'', sc), (''body'', b)])
         else (case json_dumps b of
                 Inl e \<Rightarrow> Inl e
               | Inr s \<Rightarrow> Inr (VDict [(''statusCode'', sc), (''body'', VStr s)])))
      else Inr (VDict [(''statusCode'', sc), (''body'', b)]))"
| "Response_json v = Inl (AttributeError v ''json'')"

text \<open>
  \<^verbatim>\<open>Response(statusCode, body, headers=None, isBase64Encoded=False, isApiGatewayEvent=False)\<close>
  with the defaults of the constructor for the arguments left out.
\<close>

definition Response2 :: "pyval \<Rightarrow> pyval \<Rightarrow> pyval" where
  "Response2 sc b = VResponse sc b VNone (VBool False) (VBool False)"

definition Response_gw :: "pyval \<Rightarrow> pyval \<Rightarrow> bool \<Rightarrow> pyval" where
  "Response_gw sc b gw = VResponse sc b VNone (VBool False) (VBool gw)"

section \<open>Middleware and MethodHandler\<close>

text \<open>
  A handler function and the \<^verbatim>\<open>process_request\<close> method of a middleware are functions
  from the request parameters to a result or an exception. Each carries a name, and
  every invocation is recorded in a trace of calls, so that which callables ran, how
  often, in which order and on which argument can be stated.
\<close>

record pyfun =
  fn_name :: string
  fn_call :: "pyval \<Rightarrow> exn + pyval"

record Middleware =
  mw_name :: string
  mw_process_request :: "pyval \<Rightarrow> exn + pyval"

datatype call = Middleware_call string pyval | Handler_call string pyval

record MethodHandler =
  func :: pyfun
  middlewares :: "Middleware list"

definition MethodHandler_init :: "pyfun \<Rightarrow> MethodHandler" where
  "MethodHandler_init f = \<lparr>func = f, middlewares = []\<rparr>"

text \<open>
  \<^verbatim>\<open>MethodHandler.execute\<close>: the loop over \<^verbatim>\<open>self.middlewares\<close>, then the handler. An
  exception of a middleware or of the handler leaves the loop at once.
\<close>

fun execute_from :: "pyfun \<Rightarrow> Middleware list \<Rightarrow> pyval \<Rightarrow> call list \<times> (exn + pyval)" where
  "execute_from f [] req_params = ([Handler_call (fn_name f) req_params], fn_call f req_params)"
| "execute_from f (mw # mws) req_params =
     (case mw_process_request mw req_params of
        Inl e \<Rightarrow> ([Middleware_call (mw_name mw) req_params], Inl e)
      | Inr v \<Rightarrow>
          (if is_Response v then ([Middleware_call (mw_name mw) req_params], Response_json v)
           else (case execute_from f mws v of
                   (tr, r) \<Rightarrow> (Middleware_call (mw_name mw) req_params # tr, r))))"

definition execute :: "MethodHandler \<Rightarrow> pyval \<Rightarrow> call list \<times> (exn + pyval)" where
  "execute mh req_params = execute_from (func mh) (middlewares mh) req_params"

section \<open>Route\<close>

record Route =
  route_path :: string
  http_methods :: "string list"
  methods :: "(string \<times> MethodHandler) list"

text \<open>\<^verbatim>\<open>Route.__init__\<close>: \<^verbatim>\<open>http_methods or ['GET']\<close> replaces \<^verbatim>\<open>None\<close> and the empty list.\<close>

definition Route_init :: "string \<Rightarrow> string list option \<Rightarrow> Route" where
  "Route_init p ms =
     \<lparr>route_path = p,
      http_methods = (case ms of None \<Rightarrow> [''GET''] | Some [] \<Rightarrow> [''GET''] | Some l \<Rightarrow> l),
      methods = []\<rparr>"

text \<open>\<^verbatim>\<open>Route.handle_request\<close>.\<close>

definition handle_request :: "Route \<Rightarrow> pyval \<Rightarrow> pyval \<Rightarrow> call list \<times> (exn + pyval)" where
  "handle_request r method req_params =
     (case lookup_key (methods r) method of
        Inl e \<Rightarrow> ([], Inl e)
      | Inr (Some mh) \<Rightarrow> execute mh req_params
      | Inr None \<Rightarrow> ([], Response_json (Response2 (VInt 405) (VStr ''Method Not Allowed''))))"

text \<open>
  Route objects are shared: \<^verbatim>\<open>LambdaFlask.route\<close> hands out the object stored in
  \<^verbatim>\<open>self.routes\<close>, and \<^verbatim>\<open>Route.route\<close> and \<^verbatim>\<open>Route.use_middleware\<close> mutate it in place. They
  live in a store, addressed by natural numbers; \<open>next_addr\<close> is the first address never
  allocated.
\<close>

type_synonym addr = nat
type_synonym heap = "addr \<Rightarrow> Route"

record store =
  heap :: heap
  next_addr :: addr

text \<open>\<^verbatim>\<open>Route.route\<close>: \<^verbatim>\<open>self.methods[http_method] = MethodHandler(func)\<close>.\<close>

definition Route_route :: "heap \<Rightarrow> addr \<Rightarrow> string \<Rightarrow> pyfun \<Rightarrow> heap" where
  "Route_route h a m f =
     h(a := (h a)\<lparr>methods := AList.update m (MethodHandler_init f) (methods (h a))\<rparr>)"

text \<open>
  \<^verbatim>\<open>Route.use_middleware\<close> with \<^verbatim>\<open>MethodHandler.use_middleware\<close>. A value of type
  \<open>Middleware\<close> is an instance of the class with a callable \<^verbatim>\<open>process_request\<close>, so the two
  checks of \<^verbatim>\<open>MethodHandler.use_middleware\<close> pass.
\<close>

definition Route_use_middleware :: "heap \<Rightarrow> addr \<Rightarrow> string \<Rightarrow> Middleware \<Rightarrow> exn + heap" where
  "Route_use_middleware h a m mw =
     (case map_of (methods (h a)) m of
        None \<Rightarrow> Inl (ValueError (''No method registered for '' @ m))
      | Some mh \<Rightarrow>
          Inr (h(a := (h a)\<lparr>methods :=
                 AList.update m (mh\<lparr>middlewares := middlewares mh @ [mw]\<rparr>) (methods (h a))\<rparr>)))"

section \<open>RequestInfo and the event processors\<close>

record RequestInfo =
  path :: pyval
  http_method :: pyval
  req_params :: pyval
  identity :: pyval

text \<open>\<^verbatim>\<open>RequestInfo._aggregate_params\<close>.\<close>

definition aggregate_params :: "pylib \<Rightarrow> pyval \<Rightarrow> pyval \<Rightarrow> pyval \<Rightarrow> pyval \<Rightarrow> exn + pyval" where
  "aggregate_params lib query_string_params body hdrs is_base64_encoded =
     and_then
       (if truthy body \<and> truthy is_base64_encoded then
          and_then (b64decode lib body)
            (\<lambda>f. Inr (VDict [(''base64'', VBool True), (''file'', f)]))
        else if truthy body then json_loads lib body
        else Inr body)
       (\<lambda>body'.
          and_then (unpack_mapping query_string_params) (\<lambda>q.
          and_then (unpack_mapping body') (\<lambda>b.
            Inr (VDict (AList.update ''headers'' hdrs (dict_merge q b))))))"

text \<open>\<^verbatim>\<open>RequestInfo.__init__\<close>.\<close>

definition RequestInfo_init ::
  "pylib \<Rightarrow> pyval \<Rightarrow> pyval \<Rightarrow> pyval \<Rightarrow> pyval \<Rightarrow> pyval \<Rightarrow> pyval \<Rightarrow> bool \<Rightarrow> pyval \<Rightarrow> exn + RequestInfo" where
  "RequestInfo_init lib p m query_string_params body hdrs is_base64_encoded aggregate ident =
     (if aggregate then
        and_then (aggregate_params lib query_string_params body hdrs is_base64_encoded)
          (\<lambda>ps. Inr \<lparr>path = p, http_method = m, req_params = ps, identity = ident\<rparr>)
      else
        Inr \<lparr>path = p, http_method = m,
             req_params = VDict [(''queryStringParameters'', query_string_params),
                                 (''body'', body), (''headers'', hdrs),
                                 (''isBase64Encoded'', is_base64_encoded)],
             identity = ident\<rparr>)"

text \<open>\<^verbatim>\<open>utills._process_function_url_event\<close>.\<close>

definition process_function_url_event :: "pylib \<Rightarrow> pyval \<Rightarrow> exn + RequestInfo" where
  "process_function_url_event lib event =
     and_then (subscript event ''requestContext'') (\<lambda>rc.
     and_then (subscript rc ''http'') (\<lambda>http.
     and_then (subscript http ''path'') (\<lambda>p.
     and_then (subscript http ''method'') (\<lambda>m.
     and_then (py_get event ''queryStringParameters'' (VDict [])) (\<lambda>query_params.
     and_then (py_get event ''body'' (VDict [])) (\<lambda>body.
     and_then (py_get event ''isBase64Encoded'' (VBool False)) (\<lambda>isBase64Encoded.
     and_then (py_get event ''headers'' (VDict [])) (\<lambda>hdrs.
       RequestInfo_init lib p m query_params body hdrs isBase64Encoded True VNone))))))))"

text \<open>\<^verbatim>\<open>utills._process_api_url_event\<close>.\<close>

definition process_api_url_event :: "pylib \<Rightarrow> pyval \<Rightarrow> exn + RequestInfo" where
  "process_api_url_event lib event =
     and_then (subscript event ''path'') (\<lambda>p.
     and_then (subscript event ''httpMethod'') (\<lambda>m.
     and_then (py_get event ''queryStringParameters'' VNone) (\<lambda>q0.
     and_then (if truthy q0 then py_get event ''queryStringParameters'' VNone
               else Inr (VDict [])) (\<lambda>query_params.
     and_then (py_get event ''body'' VNone) (\<lambda>b0.
     and_then (if truthy b0 then py_get event ''body'' VNone else Inr (VDict [])) (\<lambda>body.
     and_then (py_get event ''isBase64Encoded'' (VBool False)) (\<lambda>isBase64Encoded.
     and_then (py_get event ''headers'' (VDict [])) (\<lambda>hdrs.
     and_then (py_get event ''requestContext'' (VDict [])) (\<lambda>rc.
     and_then (py_get rc ''identity'' (VDict [])) (\<lambda>ident.
       RequestInfo_init lib p m query_params body hdrs isBase64Encoded True ident))))))))))"

text \<open>\<^verbatim>\<open>utills.process_event\<close>.\<close>

definition process_event :: "pylib \<Rightarrow> pyval \<Rightarrow> string \<Rightarrow> exn + RequestInfo" where
  "process_event lib event type =
     (if type = ''function_url'' then process_function_url_event lib event
      else if type = ''api_gateway_proxy'' then process_api_url_event lib event
      else Inl (ValueError ''Invalid Type''))"

section \<open>LambdaFlask\<close>

text \<open>
  The fields of \<^verbatim>\<open>LambdaFlask\<close>; \<open>routes\<close> maps a path to the address of its Route.
  \<open>logger_info\<close> is the answer of \<^verbatim>\<open>self.logger.isEnabledFor(logging.INFO)\<close>.
\<close>

record LambdaFlask =
  routes :: "(string \<times> addr) list"
  enable_request_logging :: bool
  enable_response_logging :: bool
  source :: string
  isApiGatewayEvent :: bool
  logger_info :: bool

definition ALLOWED_SOURCES :: "string list" where
  "ALLOWED_SOURCES = [''function_url'', ''api_gateway_proxy'']"

text \<open>\<^verbatim>\<open>LambdaFlask.__init__\<close>.\<close>

definition LambdaFlask_init :: "string \<Rightarrow> bool \<Rightarrow> bool \<Rightarrow> bool \<Rightarrow> exn + LambdaFlask" where
  "LambdaFlask_init src req_logging resp_logging info =
     (if src \<notin> set ALLOWED_SOURCES then Inl (ValueError ''Source Not Allowed'')
      else Inr \<lparr>routes = [], enable_request_logging = req_logging,
                enable_response_logging = resp_logging, source = src,
                isApiGatewayEvent = (src = ''api_gateway_proxy''), logger_info = info\<rparr>)"

text \<open>\<^verbatim>\<open>LambdaFlask.route\<close>: the stored Route of a known path, a new Route otherwise.\<close>

definition LambdaFlask_route ::
  "LambdaFlask \<Rightarrow> store \<Rightarrow> string \<Rightarrow> string list option \<Rightarrow> addr \<times> LambdaFlask \<times> store" where
  "LambdaFlask_route app st p ms =
     (case map_of (routes app) p of
        Some a \<Rightarrow> (a, app, st)
      | None \<Rightarrow>
          (next_addr st,
           app\<lparr>routes := AList.update p (next_addr st) (routes app)\<rparr>,
           st\<lparr>heap := (heap st)(next_addr st := Route_init p ms),
              next_addr := Suc (next_addr st)\<rparr>))"

text \<open>
  \<^verbatim>\<open>LambdaFlask.log_response\<close>: writes to the log only, but calls \<^verbatim>\<open>response.get\<close> when
  the logger is enabled for INFO.
\<close>

definition log_response :: "LambdaFlask \<Rightarrow> pyval \<Rightarrow> exn + unit" where
  "log_response app response =
     (if logger_info app then
        and_then (py_get response ''statusCode'' (VInt 500)) (\<lambda>sc.
        and_then (py_get response ''body'' (VStr ''No Body Recieved in Response'')) (\<lambda>b.
          Inr ()))
      else Inr ())"

text \<open>
  The body of the \<^verbatim>\<open>try\<close> block of \<^verbatim>\<open>LambdaFlask.process_request\<close>. Logging the request
  (\<^verbatim>\<open>req_info.log\<close>) changes nothing the function returns.
\<close>

definition dispatch :: "pylib \<Rightarrow> heap \<Rightarrow> LambdaFlask \<Rightarrow> pyval \<Rightarrow> call list \<times> (exn + pyval)" where
  "dispatch lib h app event =
     (case process_event lib event (source app) of
        Inl e \<Rightarrow> ([], Inl e)
      | Inr req_info \<Rightarrow>
          (case lookup_key (routes app) (path req_info) of
             Inl e \<Rightarrow> ([], Inl e)
           | Inr (Some a) \<Rightarrow> handle_request (h a) (http_method req_info) (req_params req_info)
           | Inr None \<Rightarrow>
               ([], Response_json (Response_gw (VInt 404) (VStr ''Route Not Found'')
                                     (isApiGatewayEvent app)))))"

text \<open>The last line of \<^verbatim>\<open>process_request\<close>: the envelope rebuilt from \<^verbatim>\<open>response.get\<close>.\<close>

definition encode_response :: "LambdaFlask \<Rightarrow> pyval \<Rightarrow> exn + pyval" where
  "encode_response app response =
     and_then (py_get response ''statusCode'' (VInt 500)) (\<lambda>sc.
     and_then (py_get response ''body'' (VDict [])) (\<lambda>b.
     and_then (py_get response ''headers'' (VDict [])) (\<lambda>hs.
     and_then (py_get response ''isBase64Encoded'' (VBool False)) (\<lambda>be.
       Response_json (VResponse sc b hs be (VBool (isApiGatewayEvent app)))))))"

text \<open>
  \<^verbatim>\<open>LambdaFlask.process_request\<close>. The result is the trace of the calls made and either
  the returned envelope or the exception that leaves the function. The clause
  \<^verbatim>\<open>except Exception\<close> replaces an instance of \<^verbatim>\<open>Exception\<close> raised in the \<^verbatim>\<open>try\<close> block by
  the envelope of a 500 Response; any other exception of the block leaves the function,
  and so does what is raised in the clause itself, by \<^verbatim>\<open>log_response\<close> or by the last
  line.
\<close>

definition process_request :: "pylib \<Rightarrow> heap \<Rightarrow> LambdaFlask \<Rightarrow> pyval \<Rightarrow> call list \<times> (exn + pyval)" where
  "process_request lib h app event =
     (case dispatch lib h app event of
        (tr, r) \<Rightarrow>
          (tr,
           and_then
             (case r of
                Inr v \<Rightarrow> Inr v
              | Inl e \<Rightarrow>
                  (if is_Exception e then
                     Response_json (Response_gw (VInt 500) (VDict [(''error'', VStr (str_exn e))])
                                      (isApiGatewayEvent app))
                   else Inl e))
             (\<lambda>response.
                and_then (if enable_response_logging app then log_response app response
                          else Inr ())
                  (\<lambda>u. encode_response app response))))"

text \<open>
  \<^verbatim>\<open>LambdaFlask.route_decorator\<close> applied to a handler function. The inner loop attaches
  the middlewares to one method, the outer loop binds the handler to each method. An
  exception leaves the store as the statements before it made it.
\<close>

fun use_middlewares :: "heap \<Rightarrow> addr \<Rightarrow> string \<Rightarrow> Middleware list \<Rightarrow> exn option \<times> heap" where
  "use_middlewares h a m [] = (None, h)"
| "use_middlewares h a m (mw # mws) =
     (case Route_use_middleware h a m mw of
        Inl e \<Rightarrow> (Some e, h)
      | Inr h' \<Rightarrow> use_middlewares h' a m mws)"

fun bind_methods :: "heap \<Rightarrow> addr \<Rightarrow> string list \<Rightarrow> pyfun \<Rightarrow> Middleware list \<Rightarrow> exn option \<times> heap" where
  "bind_methods h a [] f mws = (None, h)"
| "bind_methods h a (m # ms) f mws =
     (case use_middlewares (Route_route h a m f) a m mws of
        (Some e, h') \<Rightarrow> (Some e, h')
      | (None, h') \<Rightarrow> bind_methods h' a ms f mws)"

definition route_decorator ::
  "LambdaFlask \<Rightarrow> store \<Rightarrow> string \<Rightarrow> string list option \<Rightarrow> Middleware list option \<Rightarrow> pyfun
     \<Rightarrow> exn option \<times> LambdaFlask \<times> store" where
  "route_decorator app st p ms mws f =
     (case LambdaFlask_route app st p ms of
        (a, app', st') \<Rightarrow>
          (case ms of
             None \<Rightarrow> (Some (TypeError (squote ''NoneType'' @ '' object is not iterable'')), app', st')
           | Some l \<Rightarrow>
               (case bind_methods (heap st') a l f (case mws of None \<Rightarrow> [] | Some x \<Rightarrow> x) of
                  (e, h') \<Rightarrow> (e, app', st'\<lparr>heap := h'\<rparr>))))"

section \<open>Notions used in the statements\<close>




text \<open>A body the gateway variant can emit: a string, or a value \<^verbatim>\<open>json.dumps\<close> accepts.\<close>

definition serialisable :: "pyval \<Rightarrow> bool" where
  "serialisable v = (is_str v \<or> (case json_dumps v of Inl e \<Rightarrow> False | Inr s \<Rightarrow> True))"

text \<open>\<^verbatim>\<open>d.get(k, default)\<close> on the items of a dict.\<close>

definition get_default :: "(string \<times> pyval) list \<Rightarrow> string \<Rightarrow> pyval \<Rightarrow> pyval" where
  "get_default d k dflt = (case map_of d k of None \<Rightarrow> dflt | Some v \<Rightarrow> v)"

text \<open>
  \<open>passes mws p vs\<close>: the middlewares \<open>mws\<close>, called in order, the first on \<open>p\<close> and each
  later one on what the one before it returned, return the values \<open>vs\<close> one by one, none of
  them an exception or a Response.
\<close>

fun passes :: "Middleware list \<Rightarrow> pyval \<Rightarrow> pyval list \<Rightarrow> bool" where
  "passes [] p [] = True"
| "passes (mw # mws) p (v # vs) =
     (mw_process_request mw p = Inr v \<and> \<not> is_Response v \<and> passes mws v vs)"
| "passes mws p vs = False"

text \<open>The calls of the middlewares \<open>mws\<close> on the arguments \<open>args\<close>, pairwise.\<close>

definition middleware_calls :: "Middleware list \<Rightarrow> pyval list \<Rightarrow> call list" where
  "middleware_calls mws args = map2 (\<lambda>mw v. Middleware_call (mw_name mw) v) mws args"

section \<open>Sample configurations\<close>

text \<open>
  One application per trigger variant, each with the single path \<^verbatim>\<open>/hello\<close> whose Route is
  at address 0 and binds \<^verbatim>\<open>GET\<close> only; the handler and the middleware chain vary. The
  sample library gives \<^verbatim>\<open>json.loads\<close> and \<^verbatim>\<open>base64.b64decode\<close> at the one argument the
  examples pass to each; no example evaluates them elsewhere.
\<close>

definition sample_body :: string where
  "sample_body = ''{'' @ dquote ''b'' @ '': 2}''"

definition sample_lib :: pylib where
  "sample_lib =
     \<lparr>json_loads = (\<lambda>v. if v = VStr sample_body then Inr (VDict [(''b'', VInt 2)])
                        else Inl (Exn ''JSONDecodeError'' ''Expecting value'')),
      b64decode = (\<lambda>v. if v = VStr ''aGk='' then Inr (VBytes ''hi'')
                       else Inl (Exn ''Error'' ''Incorrect padding''))\<rparr>"

definition direct_app :: LambdaFlask where
  "direct_app =
     \<lparr>routes = [(''/hello'', 0)], enable_request_logging = True,
      enable_response_logging = True, source = ''function_url'',
      isApiGatewayEvent = False, logger_info = True\<rparr>"

definition gateway_app :: LambdaFlask where
  "gateway_app =
     \<lparr>routes = [(''/hello'', 0)], enable_request_logging = True,
      enable_response_logging = True, source = ''api_gateway_proxy'',
      isApiGatewayEvent = True, logger_info = True\<rparr>"

definition hello_route :: "pyfun \<Rightarrow> Middleware list \<Rightarrow> Route" where
  "hello_route f mws =
     \<lparr>route_path = ''/hello'', http_methods = [''GET''],
      methods = [(''GET'', \<lparr>func = f, middlewares = mws\<rparr>)]\<rparr>"

definition hello_heap :: "pyfun \<Rightarrow> Middleware list \<Rightarrow> heap" where
  "hello_heap f mws = (\<lambda>a. hello_route f mws)"

definition direct_event :: "string \<Rightarrow> string \<Rightarrow> pyval" where
  "direct_event p m =
     VDict [(''requestContext'',
             VDict [(''http'', VDict [(''path'', VStr p), (''method'', VStr m)])])]"

definition gateway_event :: "string \<Rightarrow> string \<Rightarrow> pyval" where
  "gateway_event p m = VDict [(''path'', VStr p), (''httpMethod'', VStr m)]"

definition query_body_event :: pyval where
  "query_body_event =
     VDict [(''requestContext'',
             VDict [(''http'', VDict [(''path'', VStr ''/hello''), (''method'', VStr ''GET'')])]),
            (''queryStringParameters'', VDict [(''a'', VInt 1), (''b'', VInt 0)]),
            (''body'', VStr sample_body)]"

text \<open>Handlers: one returns an envelope, one a mapping without the envelope keys, one a
  bare string, one a mapping whose body \<^verbatim>\<open>json.dumps\<close> rejects, one raises an
  \<^verbatim>\<open>Exception\<close>, one calls \<^verbatim>\<open>sys.exit\<close>.\<close>

definition hello_handler :: pyfun where
  "hello_handler =
     \<lparr>fn_name = ''hello'',
      fn_call = (\<lambda>ps. Inr (VDict [(''statusCode'', VInt 200), (''body'', VStr ''hello'')]))\<rparr>"

definition data_handler :: pyfun where
  "data_handler = \<lparr>fn_name = ''data'', fn_call = (\<lambda>ps. Inr (VDict [(''data'', VInt 1)]))\<rparr>"


definition bytes_handler :: pyfun where
  "bytes_handler =
     \<lparr>fn_name = ''bytes'',
      fn_call = (\<lambda>ps. Inr (VDict [(''statusCode'', VInt 200), (''body'', VBytes ''x'')]))\<rparr>"



text \<open>Middlewares: one passes a tagged copy of the params on, one answers 403, one
  answers 403 with a body of bytes in a Response whose gateway flag is the argument.\<close>

definition tag_middleware :: Middleware where
  "tag_middleware =
     \<lparr>mw_name = ''tag'', mw_process_request = (\<lambda>ps. Inr (VDict [(''tagged'', ps)]))\<rparr>"

definition deny_middleware :: Middleware where
  "deny_middleware =
     \<lparr>mw_name = ''deny'',
      mw_process_request =
        (\<lambda>ps. Inr (Response2 (VInt 403) (VDict [(''error'', VStr ''denied'')])))\<rparr>"

definition bytes_middleware :: "bool \<Rightarrow> Middleware" where
  "bytes_middleware gw =
     \<lparr>mw_name = ''bytes'',
      mw_process_request =
        (\<lambda>ps. Inr (VResponse (VInt 403) (VBytes ''x'') VNone (VBool False) (VBool gw)))\<rparr>"

definition empty_store :: store where
  "empty_store = \<lparr>heap = (\<lambda>a. Route_init [] None), next_addr = 0\<rparr>"

definition empty_app :: LambdaFlask where
  "empty_app =
     \<lparr>routes = [], enable_request_logging = True, enable_response_logging = True,
      source = ''function_url'', isApiGatewayEvent = False, logger_info = True\<rparr>"

text \<open>
  The path \<^verbatim>\<open>/hello\<close> registered on the empty application through the decorator, first
  for \<^verbatim>\<open>GET\<close> and then, a second time, for \<^verbatim>\<open>POST\<close> with another handler.
\<close>

definition hello_registered :: "exn option \<times> LambdaFlask \<times> store" where
  "hello_registered =
     route_decorator empty_app empty_store ''/hello'' (Some [''GET'']) None hello_handler"

definition hello_registered_twice :: "exn option \<times> LambdaFlask \<times> store" where
  "hello_registered_twice =
     (case hello_registered of
        (e, app1, st1) \<Rightarrow> route_decorator app1 st1 ''/hello'' (Some [''POST'']) None data_handler)"

section \<open>The pipeline, step by step\<close>

lemma encode_basestring_error: "encode_basestring ''error'' = dquote ''error''"
  by (simp add: encode_basestring_def escape_char_def)

lemma json_dumps_error:
  "json_dumps (VDict [(''error'', VStr msg)]) =
     Inr (''{'' @ dquote ''error'' @ '': '' @ encode_basestring msg @ ''}'')"
  by (simp add: encode_basestring_error)

text \<open>What \<open>process_request\<close> makes of each outcome of the \<^verbatim>\<open>try\<close> block.\<close>

lemma process_request_raised:
  assumes "dispatch lib h app event = (tr, Inl e)" and "is_Exception e"
  shows "process_request lib h app event =
           (tr, Inr (VDict [(''statusCode'', VInt 500),
                            (''body'',
                             if isApiGatewayEvent app
                             then VStr (''{'' @ dquote ''error'' @ '': '' @
                                        encode_basestring (str_exn e) @ ''}'')
                             else VDict [(''error'', VStr (str_exn e))])]))"
  using assms
  by (simp add: process_request_def Response_gw_def log_response_def encode_response_def
        json_dumps_error del: json_dumps.simps)


lemma is_Exception_errors:
  "is_Exception (KeyError k)" "is_Exception (TypeError msg)" "is_Exception (ValueError msg)"
  "is_Exception (AttributeError v attr)"
  by (simp_all add: KeyError_def TypeError_def ValueError_def AttributeError_def)

lemma json_dumps_raises_TypeError:
  "json_dumps v = Inl e \<Longrightarrow> is_Exception e"
  "dumps_list xs = Inl e \<Longrightarrow> is_Exception e"
  "dumps_items kvs = Inl e \<Longrightarrow> is_Exception e"
  by (induction v and xs and kvs arbitrary: e and e and e rule: json_dumps_dumps_list_dumps_items.induct)
    (auto simp: is_Exception_errors split: sum.splits)

lemma process_request_dict:
  assumes "dispatch lib h app event = (tr, Inr (VDict d))"
  shows "process_request lib h app event = (tr, encode_response app (VDict d))"
  using assms by (simp add: process_request_def log_response_def)


lemma dispatch_route:
  assumes "process_event lib event (source app) = Inr req"
      and "path req = VStr p" and "map_of (routes app) p = Some a"
  shows "dispatch lib h app event = handle_request (h a) (http_method req) (req_params req)"
  using assms by (simp add: dispatch_def)

lemma dispatch_no_route:
  assumes "process_event lib event (source app) = Inr req"
      and "hashable (path req)"
      and "\<forall>p. path req = VStr p \<longrightarrow> map_of (routes app) p = None"
  shows "dispatch lib h app event =
           ([], Inr (VDict [(''statusCode'', VInt 404), (''body'', VStr ''Route Not Found'')]))"
  using assms by (cases "path req") (simp_all add: dispatch_def Response_gw_def)

lemma handle_request_bound:
  "map_of (methods r) m = Some mh \<Longrightarrow> handle_request r (VStr m) ps = execute mh ps"
  by (simp add: handle_request_def)

lemma handle_request_unbound:
  "map_of (methods r) m = None \<Longrightarrow>
   handle_request r (VStr m) ps =
     ([], Inr (VDict [(''statusCode'', VInt 405), (''body'', VStr ''Method Not Allowed'')]))"
  by (simp add: handle_request_def Response2_def)

lemma encode_response_envelope:
  "encode_response app (VDict [(''statusCode'', sc), (''body'', VStr s)]) =
     Inr (VDict [(''statusCode'', sc), (''body'', VStr s)])"
  by (simp add: encode_response_def)

text \<open>The requests the sample events normalise to.\<close>

lemma direct_event_request:
  "process_event lib (direct_event p m) ''function_url'' =
     Inr \<lparr>path = VStr p, http_method = VStr m,
          req_params = VDict [(''headers'', VDict [])], identity = VNone\<rparr>"
  by (simp add: process_event_def process_function_url_event_def direct_event_def
        RequestInfo_init_def aggregate_params_def dict_merge_def)

lemma gateway_event_request:
  "process_event lib (gateway_event p m) ''api_gateway_proxy'' =
     Inr \<lparr>path = VStr p, http_method = VStr m,
          req_params = VDict [(''headers'', VDict [])], identity = VDict []\<rparr>"
  by (simp add: process_event_def process_api_url_event_def gateway_event_def
        RequestInfo_init_def aggregate_params_def dict_merge_def)

section \<open>Unregistered paths\<close>

text \<open>
  C7. For every event that normalises to a request whose path is hashable and is not a
  key of \<^verbatim>\<open>self.routes\<close>, \<open>process_request\<close> returns the envelope with status code 404
  and body \<^verbatim>\<open>Route Not Found\<close>, in either variant, and the trace of calls is empty: no
  handler and no middleware is invoked.
\<close>

theorem unregistered_path_404:
  assumes "process_event lib event (source app) = Inr req"
      and "hashable (path req)"
      and "\<forall>p. path req = VStr p \<longrightarrow> map_of (routes app) p = None"
  shows "process_request lib h app event =
           ([], Inr (VDict [(''statusCode'', VInt 404), (''body'', VStr ''Route Not Found'')]))"
  using process_request_dict [OF dispatch_no_route [OF assms]]
  by (simp add: encode_response_envelope)

text \<open>The gateway application, asked for a path it does not know.\<close>

theorem unregistered_path_404_witness:
  "process_event sample_lib (gateway_event ''/other'' ''GET'') (source gateway_app) =
     Inr \<lparr>path = VStr ''/other'', http_method = VStr ''GET'',
          req_params = VDict [(''headers'', VDict [])], identity = VDict []\<rparr>
   \<and> hashable (VStr ''/other'')
   \<and> map_of (routes gateway_app) ''/other'' = None
   \<and> process_request sample_lib (hello_heap hello_handler []) gateway_app
         (gateway_event ''/other'' ''GET'') =
       ([], Inr (VDict [(''statusCode'', VInt 404), (''body'', VStr ''Route Not Found'')]))"
  using unregistered_path_404 [of sample_lib "gateway_event ''/other'' ''GET''" gateway_app
      "\<lparr>path = VStr ''/other'', http_method = VStr ''GET'',
        req_params = VDict [(''headers'', VDict [])], identity = VDict []\<rparr>"
      "hello_heap hello_handler []"]
  by (simp add: gateway_event_request gateway_app_def)

section \<open>Dispatch within a Route\<close>

lemma handle_request_http_methods:
  "handle_request (r\<lparr>http_methods := l\<rparr>) m ps = handle_request r m ps"
  by (simp add: handle_request_def)

lemma dispatch_http_methods:
  "dispatch lib (h(a := (h a)\<lparr>http_methods := l\<rparr>)) app event = dispatch lib h app event"
  by (simp add: dispatch_def handle_request_http_methods split: sum.splits option.splits)

lemma execute_no_middleware:
  "execute (MethodHandler_init f) ps = ([Handler_call (fn_name f) ps], fn_call f ps)"
  by (simp add: execute_def MethodHandler_init_def)

text \<open>
  C10. The list \<open>http_methods\<close> of a Route never influences dispatch: replacing it by any
  list \<open>l\<close> changes neither \<open>handle_request\<close> nor \<open>process_request\<close>. A handler bound by
  \<open>Route_route\<close> under a method that is absent from \<open>http_methods\<close> is served, and a method
  that is in \<open>http_methods\<close> but has no bound handler is answered 405
  \<^verbatim>\<open>Method Not Allowed\<close>.
\<close>

theorem http_methods_never_consulted:
  "handle_request (r\<lparr>http_methods := l\<rparr>) m ps = handle_request r m ps
   \<and> process_request lib (h(a := (h a)\<lparr>http_methods := l\<rparr>)) app event =
       process_request lib h app event
   \<and> (m1 \<notin> set (http_methods (h a)) \<longrightarrow>
        handle_request (Route_route h a m1 f a) (VStr m1) ps =
          ([Handler_call (fn_name f) ps], fn_call f ps))
   \<and> (m2 \<in> set (http_methods r) \<and> map_of (methods r) m2 = None \<longrightarrow>
        handle_request r (VStr m2) ps =
          ([], Inr (VDict [(''statusCode'', VInt 405), (''body'', VStr ''Method Not Allowed'')])))"
proof -
  have "process_request lib (h(a := (h a)\<lparr>http_methods := l\<rparr>)) app event =
      process_request lib h app event"
    by (simp add: process_request_def dispatch_http_methods)
  moreover have "handle_request (Route_route h a m1 f a) (VStr m1) ps =
      ([Handler_call (fn_name f) ps], fn_call f ps)"
    by (simp add: Route_route_def handle_request_def update_conv' execute_no_middleware)
  ultimately show ?thesis
    by (simp add: handle_request_http_methods handle_request_unbound)
qed

text \<open>
  \<^verbatim>\<open>POST\<close> bound on a Route created for \<^verbatim>\<open>GET\<close> is served; \<^verbatim>\<open>GET\<close> on a new Route, listed
  but not bound, is answered 405.
\<close>

theorem http_methods_never_consulted_witness:
  "''POST'' \<notin> set (http_methods (hello_heap hello_handler [] 0))
   \<and> handle_request (Route_route (hello_heap hello_handler []) 0 ''POST'' data_handler 0)
        (VStr ''POST'') VNone =
       ([Handler_call ''data'' VNone], Inr (VDict [(''data'', VInt 1)]))
   \<and> ''GET'' \<in> set (http_methods (Route_init ''/hello'' None))
   \<and> map_of (methods (Route_init ''/hello'' None)) ''GET'' = None
   \<and> handle_request (Route_init ''/hello'' None) (VStr ''GET'') VNone =
       ([], Inr (VDict [(''statusCode'', VInt 405), (''body'', VStr ''Method Not Allowed'')]))"
  using http_methods_never_consulted [where r = "Route_init ''/hello'' None"
      and h = "hello_heap hello_handler []" and a = 0 and ?m1.0 = "''POST''" and f = data_handler
      and ?m2.0 = "''GET''" and ps = VNone]
  by (simp add: hello_heap_def hello_route_def Route_init_def data_handler_def)

section \<open>Letter case of the method\<close>





section \<open>The middleware chain\<close>

lemma passes_length: "passes mws p vs \<Longrightarrow> length vs = length mws"
  by (induction mws p vs rule: passes.induct) simp_all

lemma execute_from_passes:
  "passes pre p vs \<Longrightarrow>
   execute_from f (pre @ rest) p =
     (middleware_calls pre (p # vs) @ fst (execute_from f rest (last (p # vs))),
      snd (execute_from f rest (last (p # vs))))"
proof (induction pre p vs rule: passes.induct)
  case (1 p)
  then show ?case by (simp add: middleware_calls_def)
next
  case (2 mw mws p v vs)
  then show ?case by (simp add: middleware_calls_def split: prod.splits)
qed simp_all

lemma execute_from_short_circuit:
  assumes "passes pre p vs"
      and "mw_process_request mk (last (p # vs)) = Inr (VResponse sc b hs be gw)"
  shows "execute_from f (pre @ mk # post) p =
           (middleware_calls pre (p # vs) @ [Middleware_call (mw_name mk) (last (p # vs))],
            Response_json (VResponse sc b hs be gw))"
  using assms by (simp add: execute_from_passes)

lemma execute_from_handler:
  assumes "passes mws p vs"
  shows "execute_from f mws p =
           (middleware_calls mws (p # vs) @ [Handler_call (fn_name f) (last (p # vs))],
            fn_call f (last (p # vs)))"
  using execute_from_passes [OF assms, of f "[]"] by simp

lemma dispatch_handler:
  assumes "process_event lib event (source app) = Inr req"
      and "path req = VStr p" and "map_of (routes app) p = Some a"
      and "http_method req = VStr m" and "map_of (methods (h a)) m = Some mh"
  shows "dispatch lib h app event = execute_from (func mh) (middlewares mh) (req_params req)"
  using dispatch_route [OF assms(1-3)] assms(4,5)
  by (simp add: handle_request_bound execute_def)


section \<open>The final encoding\<close>

lemma encode_response_direct:
  "\<not> isApiGatewayEvent app \<Longrightarrow>
   encode_response app (VDict d) =
     Inr (VDict [(''statusCode'', get_default d ''statusCode'' (VInt 500)),
                 (''body'', get_default d ''body'' (VDict []))])"
  by (simp add: encode_response_def get_default_def)

lemma encode_response_str:
  "is_str (get_default d ''body'' (VDict [])) \<Longrightarrow>
   encode_response app (VDict d) =
     Inr (VDict [(''statusCode'', get_default d ''statusCode'' (VInt 500)),
                 (''body'', get_default d ''body'' (VDict []))])"
  by (simp add: encode_response_def get_default_def)

lemma encode_response_gateway:
  "isApiGatewayEvent app \<Longrightarrow> \<not> is_str (get_default d ''body'' (VDict [])) \<Longrightarrow>
   json_dumps (get_default d ''body'' (VDict [])) = Inr s \<Longrightarrow>
   encode_response app (VDict d) =
     Inr (VDict [(''statusCode'', get_default d ''statusCode'' (VInt 500)), (''body'', VStr s)])"
  by (simp add: encode_response_def get_default_def)

lemma encode_response_gateway_raises:
  "isApiGatewayEvent app \<Longrightarrow> \<not> is_str (get_default d ''body'' (VDict [])) \<Longrightarrow>
   json_dumps (get_default d ''body'' (VDict [])) = Inl e \<Longrightarrow>
   encode_response app (VDict d) = Inl e"
  by (simp add: encode_response_def get_default_def)


lemma process_request_envelope:
  assumes "dispatch lib h app event = (tr, Inr (VDict [(''statusCode'', sc), (''body'', VStr s)]))"
  shows "process_request lib h app event = (tr, Inr (VDict [(''statusCode'', sc), (''body'', VStr s)]))"
  using process_request_dict [OF assms] by (simp add: encode_response_envelope)

section \<open>The sample applications at \<^verbatim>\<open>GET /hello\<close>\<close>

lemma hello_request_direct:
  "process_event sample_lib (direct_event ''/hello'' ''GET'') (source direct_app) =
     Inr \<lparr>path = VStr ''/hello'', http_method = VStr ''GET'',
          req_params = VDict [(''headers'', VDict [])], identity = VNone\<rparr>"
  by (simp add: direct_app_def direct_event_request)

lemma hello_request_gateway:
  "process_event sample_lib (gateway_event ''/hello'' ''GET'') (source gateway_app) =
     Inr \<lparr>path = VStr ''/hello'', http_method = VStr ''GET'',
          req_params = VDict [(''headers'', VDict [])], identity = VDict []\<rparr>"
  by (simp add: gateway_app_def gateway_event_request)

lemma hello_dispatch_direct:
  "dispatch lib (hello_heap f mws) direct_app (direct_event ''/hello'' ''GET'') =
     execute_from f mws (VDict [(''headers'', VDict [])])"
  using dispatch_handler [where h = "hello_heap f mws" and app = direct_app and lib = lib
      and event = "direct_event ''/hello'' ''GET''" and p = "''/hello''" and a = 0
      and m = "''GET''" and mh = "\<lparr>func = f, middlewares = mws\<rparr>"
      and req = "\<lparr>path = VStr ''/hello'', http_method = VStr ''GET'',
                  req_params = VDict [(''headers'', VDict [])], identity = VNone\<rparr>"]
  by (simp add: direct_event_request direct_app_def hello_heap_def hello_route_def)

lemma hello_dispatch_gateway:
  "dispatch lib (hello_heap f mws) gateway_app (gateway_event ''/hello'' ''GET'') =
     execute_from f mws (VDict [(''headers'', VDict [])])"
  using dispatch_handler [where h = "hello_heap f mws" and app = gateway_app and lib = lib
      and event = "gateway_event ''/hello'' ''GET''" and p = "''/hello''" and a = 0
      and m = "''GET''" and mh = "\<lparr>func = f, middlewares = mws\<rparr>"
      and req = "\<lparr>path = VStr ''/hello'', http_method = VStr ''GET'',
                  req_params = VDict [(''headers'', VDict [])], identity = VDict []\<rparr>"]
  by (simp add: gateway_event_request gateway_app_def hello_heap_def hello_route_def)


lemma encode_basestring_denied: "encode_basestring ''denied'' = dquote ''denied''"
  by (simp add: encode_basestring_def escape_char_def)

section \<open>Short-circuit by a middleware\<close>

text \<open>
  C1, as the code has it. Let the chain of the handler bound to the path and method of
  the request be \<open>pre @ mk # post\<close>, let the middlewares \<open>pre\<close> pass (returning \<open>vs\<close>), and
  let \<open>mk\<close> return a Response with status code \<open>sc\<close> and body \<open>b\<close>. Then the calls made are
  exactly those of \<open>pre\<close>, in registration order, the first on the params of the request and
  each next one on what the previous returned, followed by the one call of \<open>mk\<close>: no
  middleware of \<open>post\<close> and no handler is invoked. When \<open>b\<close> is a string, or when neither
  the Response nor the application carries the gateway flag, the envelope returned has
  the status code \<open>sc\<close> and the body \<open>b\<close>. Otherwise \<^verbatim>\<open>json.dumps\<close> is applied to \<open>b\<close>: when it
  accepts \<open>b\<close>, the envelope has the status code \<open>sc\<close> and the JSON text of \<open>b\<close> as body; when
  it raises, no envelope of that Response is returned: if the Response carries the flag
  the exception is raised inside the \<^verbatim>\<open>try\<close> block and the 500 envelope of that exception
  is returned, and if only the application carries it the exception leaves
  \<open>process_request\<close>.
\<close>

theorem middleware_short_circuit:
  assumes "process_event lib event (source app) = Inr req"
      and "path req = VStr p" and "map_of (routes app) p = Some a"
      and "http_method req = VStr m" and "map_of (methods (h a)) m = Some mh"
      and "middlewares mh = pre @ mk # post"
      and "passes pre (req_params req) vs"
      and "mw_process_request mk (last (req_params req # vs)) = Inr (VResponse sc b hs be gw)"
  shows "fst (process_request lib h app event) =
           middleware_calls pre (req_params req # vs) @
           [Middleware_call (mw_name mk) (last (req_params req # vs))]
       \<and> length (fst (process_request lib h app event)) = Suc (length pre)
       \<and> (\<forall>nm v. Handler_call nm v \<notin> set (fst (process_request lib h app event)))
       \<and> (is_str b \<or> (\<not> truthy gw \<and> \<not> isApiGatewayEvent app) \<longrightarrow>
            snd (process_request lib h app event) =
              Inr (VDict [(''statusCode'', sc), (''body'', b)]))
       \<and> (\<not> is_str b \<and> (truthy gw \<or> isApiGatewayEvent app) \<and> json_dumps b = Inr s \<longrightarrow>
            snd (process_request lib h app event) =
              Inr (VDict [(''statusCode'', sc), (''body'', VStr s)]))
       \<and> (\<not> is_str b \<and> truthy gw \<and> json_dumps b = Inl e \<longrightarrow>
            snd (process_request lib h app event) =
              Inr (VDict [(''statusCode'', VInt 500),
                          (''body'',
                           if isApiGatewayEvent app
                           then VStr (''{'' @ dquote ''error'' @ '': '' @
                                      encode_basestring (str_exn e) @ ''}'')
                           else VDict [(''error'', VStr (str_exn e))])]))
       \<and> (\<not> is_str b \<and> \<not> truthy gw \<and> isApiGatewayEvent app \<and> json_dumps b = Inl e \<longrightarrow>
            snd (process_request lib h app event) = Inl e)"
proof -
  let ?tr = "middleware_calls pre (req_params req # vs) @
           [Middleware_call (mw_name mk) (last (req_params req # vs))]"
  have len: "length vs = length pre"
    using assms(7) by (rule passes_length)
  have d: "dispatch lib h app event = (?tr, Response_json (VResponse sc b hs be gw))"
    using dispatch_handler [where h = h, OF assms(1-5)] execute_from_short_circuit [OF assms(7,8)] assms(6)
    by simp
  have tr: "fst (process_request lib h app event) = ?tr"
    using d by (simp add: process_request_def)
  have a: "snd (process_request lib h app event) = Inr (VDict [(''statusCode'', sc), (''body'', b)])"
    if "is_str b \<or> (\<not> truthy gw \<and> \<not> isApiGatewayEvent app)"
  proof -
    from that have "dispatch lib h app event = (?tr, Inr (VDict [(''statusCode'', sc), (''body'', b)]))"
      using d by auto
    from process_request_dict [OF this] that show ?thesis
      by (auto simp: encode_response_def)
  qed
  have g: "snd (process_request lib h app event) = Inr (VDict [(''statusCode'', sc), (''body'', VStr s)])"
    if "\<not> is_str b \<and> (truthy gw \<or> isApiGatewayEvent app) \<and> json_dumps b = Inr s"
  proof (cases "truthy gw")
    case True
    with that have "dispatch lib h app event = (?tr, Inr (VDict [(''statusCode'', sc), (''body'', VStr s)]))"
      using d by simp
    from process_request_envelope [OF this] show ?thesis by simp
  next
    case False
    with that have "dispatch lib h app event = (?tr, Inr (VDict [(''statusCode'', sc), (''body'', b)]))"
      using d by simp
    from process_request_dict [OF this] that False show ?thesis
      by (simp add: encode_response_def)
  qed
  have r: "snd (process_request lib h app event) =
              Inr (VDict [(''statusCode'', VInt 500),
                          (''body'',
                           if isApiGatewayEvent app
                           then VStr (''{'' @ dquote ''error'' @ '': '' @
                                      encode_basestring (str_exn e) @ ''}'')
                           else VDict [(''error'', VStr (str_exn e))])])"
    if "\<not> is_str b \<and> truthy gw \<and> json_dumps b = Inl e"
  proof -
    from that have "dispatch lib h app event = (?tr, Inl e)"
      using d by simp
    moreover from that have "is_Exception e"
      using json_dumps_raises_TypeError(1) by blast
    ultimately show ?thesis
      using process_request_raised by simp
  qed
  have x: "snd (process_request lib h app event) = Inl e"
    if "\<not> is_str b \<and> \<not> truthy gw \<and> isApiGatewayEvent app \<and> json_dumps b = Inl e"
  proof -
    from that have "dispatch lib h app event = (?tr, Inr (VDict [(''statusCode'', sc), (''body'', b)]))"
      using d by simp
    from process_request_dict [OF this] that show ?thesis
      by (simp add: encode_response_def)
  qed
  have "length ?tr = Suc (length pre)"
    using len by (simp add: middleware_calls_def)
  moreover have "\<forall>nm v. Handler_call nm v \<notin> set ?tr"
    by (auto simp: middleware_calls_def)
  ultimately show ?thesis
    using tr a g r x by simp
qed

text \<open>
  A chain of three: the first middleware passes, the second answers 403, the third and
  the handler never run. The direct application returns the body of the Response as it
  is, the gateway application its JSON text. A Response whose body is of bytes: with the
  gateway flag on the Response the answer is the 500 envelope, with the flag on the
  application only the \<^verbatim>\<open>TypeError\<close> leaves \<open>process_request\<close>.
\<close>

theorem middleware_short_circuit_witness:
  "process_event sample_lib (direct_event ''/hello'' ''GET'') (source direct_app) =
     Inr \<lparr>path = VStr ''/hello'', http_method = VStr ''GET'',
          req_params = VDict [(''headers'', VDict [])], identity = VNone\<rparr>
   \<and> map_of (routes direct_app) ''/hello'' = Some 0
   \<and> map_of (methods (hello_heap hello_handler
                        [tag_middleware, deny_middleware, tag_middleware] 0)) ''GET'' =
       Some \<lparr>func = hello_handler,
             middlewares = [tag_middleware] @ deny_middleware # [tag_middleware]\<rparr>
   \<and> passes [tag_middleware] (VDict [(''headers'', VDict [])])
       [VDict [(''tagged'', VDict [(''headers'', VDict [])])]]
   \<and> mw_process_request deny_middleware (VDict [(''tagged'', VDict [(''headers'', VDict [])])]) =
       Inr (VResponse (VInt 403) (VDict [(''error'', VStr ''denied'')]) VNone (VBool False)
              (VBool False))
   \<and> process_request sample_lib
        (hello_heap hello_handler [tag_middleware, deny_middleware, tag_middleware]) direct_app
        (direct_event ''/hello'' ''GET'') =
       ([Middleware_call ''tag'' (VDict [(''headers'', VDict [])]),
         Middleware_call ''deny'' (VDict [(''tagged'', VDict [(''headers'', VDict [])])])],
        Inr (VDict [(''statusCode'', VInt 403), (''body'', VDict [(''error'', VStr ''denied'')])]))
   \<and> json_dumps (VDict [(''error'', VStr ''denied'')]) =
       Inr (''{'' @ dquote ''error'' @ '': '' @ dquote ''denied'' @ ''}'')
   \<and> process_request sample_lib
        (hello_heap hello_handler [tag_middleware, deny_middleware, tag_middleware]) gateway_app
        (gateway_event ''/hello'' ''GET'') =
       ([Middleware_call ''tag'' (VDict [(''headers'', VDict [])]),
         Middleware_call ''deny'' (VDict [(''tagged'', VDict [(''headers'', VDict [])])])],
        Inr (VDict [(''statusCode'', VInt 403),
                    (''body'', VStr (''{'' @ dquote ''error'' @ '': '' @ dquote ''denied'' @ ''}''))]))
   \<and> json_dumps (VBytes ''x'') =
       Inl (TypeError ''Object of type bytes is not JSON serializable'')
   \<and> process_request sample_lib (hello_heap hello_handler [bytes_middleware True]) direct_app
        (direct_event ''/hello'' ''GET'') =
       ([Middleware_call ''bytes'' (VDict [(''headers'', VDict [])])],
        Inr (VDict [(''statusCode'', VInt 500),
                    (''body'', VDict [(''error'',
                       VStr ''Object of type bytes is not JSON serializable'')])]))
   \<and> process_request sample_lib (hello_heap hello_handler [bytes_middleware False]) gateway_app
        (gateway_event ''/hello'' ''GET'') =
       ([Middleware_call ''bytes'' (VDict [(''headers'', VDict [])])],
        Inl (TypeError ''Object of type bytes is not JSON serializable''))"
proof -
  let ?h = "hello_heap hello_handler [tag_middleware, deny_middleware, tag_middleware]"
  let ?mh = "\<lparr>func = hello_handler,
              middlewares = [tag_middleware] @ deny_middleware # [tag_middleware]\<rparr>"
  let ?req = "\<lparr>path = VStr ''/hello'', http_method = VStr ''GET'',
          req_params = VDict [(''headers'', VDict [])], identity = VNone\<rparr>"
  let ?greq = "\<lparr>path = VStr ''/hello'', http_method = VStr ''GET'',
          req_params = VDict [(''headers'', VDict [])], identity = VDict []\<rparr>"
  let ?tr = "[Middleware_call ''tag'' (VDict [(''headers'', VDict [])]),
         Middleware_call ''deny'' (VDict [(''tagged'', VDict [(''headers'', VDict [])])])]"
  have r: "map_of (routes direct_app) ''/hello'' = Some 0"
    by (simp add: direct_app_def)
  have gr: "map_of (routes gateway_app) ''/hello'' = Some 0"
    by (simp add: gateway_app_def)
  have m: "map_of (methods (?h 0)) ''GET'' = Some ?mh"
    by (simp add: hello_heap_def hello_route_def)
  have c: "middlewares ?mh = [tag_middleware] @ deny_middleware # [tag_middleware]"
    by simp
  have p: "passes [tag_middleware] (req_params ?req)
       [VDict [(''tagged'', VDict [(''headers'', VDict [])])]]"
    by (simp add: tag_middleware_def)
  have k: "mw_process_request deny_middleware
       (last (req_params ?req # [VDict [(''tagged'', VDict [(''headers'', VDict [])])]])) =
       Inr (VResponse (VInt 403) (VDict [(''error'', VStr ''denied'')]) VNone (VBool False)
              (VBool False))"
    by (simp add: deny_middleware_def Response2_def)
  have gp: "passes [tag_middleware] (req_params ?greq)
       [VDict [(''tagged'', VDict [(''headers'', VDict [])])]]"
    by (simp add: tag_middleware_def)
  have gk: "mw_process_request deny_middleware
       (last (req_params ?greq # [VDict [(''tagged'', VDict [(''headers'', VDict [])])]])) =
       Inr (VResponse (VInt 403) (VDict [(''error'', VStr ''denied'')]) VNone (VBool False)
              (VBool False))"
    by (simp add: deny_middleware_def Response2_def)
  have j: "json_dumps (VDict [(''error'', VStr ''denied'')]) =
       Inr (''{'' @ dquote ''error'' @ '': '' @ dquote ''denied'' @ ''}'')"
    by (simp only: json_dumps_error encode_basestring_denied)
  from middleware_short_circuit [where h = ?h and s = "[]", OF hello_request_direct _ r _ m c p k]
  have "fst (process_request sample_lib ?h direct_app (direct_event ''/hello'' ''GET'')) = ?tr
     \<and> snd (process_request sample_lib ?h direct_app (direct_event ''/hello'' ''GET'')) =
        Inr (VDict [(''statusCode'', VInt 403), (''body'', VDict [(''error'', VStr ''denied'')])])"
    by (simp add: middleware_calls_def tag_middleware_def deny_middleware_def direct_app_def)
  moreover
  from middleware_short_circuit [where h = ?h
      and s = "''{'' @ dquote ''error'' @ '': '' @ dquote ''denied'' @ ''}''",
      OF hello_request_gateway _ gr _ m c gp gk] j
  have "fst (process_request sample_lib ?h gateway_app (gateway_event ''/hello'' ''GET'')) = ?tr
     \<and> snd (process_request sample_lib ?h gateway_app (gateway_event ''/hello'' ''GET'')) =
        Inr (VDict [(''statusCode'', VInt 403),
                    (''body'', VStr (''{'' @ dquote ''error'' @ '': '' @ dquote ''denied'' @ ''}''))])"
    by (simp add: middleware_calls_def tag_middleware_def deny_middleware_def gateway_app_def
        del: json_dumps.simps)
  moreover
  have bm: "map_of (methods (hello_heap hello_handler [bytes_middleware gw] 0)) ''GET'' =
      Some \<lparr>func = hello_handler, middlewares = [] @ bytes_middleware gw # []\<rparr>" for gw
    by (simp add: hello_heap_def hello_route_def)
  have bc: "middlewares \<lparr>func = hello_handler, middlewares = [] @ bytes_middleware gw # []\<rparr> =
      [] @ bytes_middleware gw # []" for gw
    by simp
  have bp: "passes [] (req_params ?req) []" and gbp: "passes [] (req_params ?greq) []"
    by simp_all
  have bk: "mw_process_request (bytes_middleware gw) (last (req_params ?req # [])) =
      Inr (VResponse (VInt 403) (VBytes ''x'') VNone (VBool False) (VBool gw))" for gw
    by (simp add: bytes_middleware_def)
  have gbk: "mw_process_request (bytes_middleware gw) (last (req_params ?greq # [])) =
      Inr (VResponse (VInt 403) (VBytes ''x'') VNone (VBool False) (VBool gw))" for gw
    by (simp add: bytes_middleware_def)
  have jb: "json_dumps (VBytes ''x'') =
      Inl (TypeError ''Object of type bytes is not JSON serializable'')"
    by simp
  from middleware_short_circuit [where h = "hello_heap hello_handler [bytes_middleware True]"
      and e = "TypeError ''Object of type bytes is not JSON serializable''",
      OF hello_request_direct _ r _ bm bc bp bk] jb
  have "process_request sample_lib (hello_heap hello_handler [bytes_middleware True]) direct_app
        (direct_event ''/hello'' ''GET'') =
       ([Middleware_call ''bytes'' (VDict [(''headers'', VDict [])])],
        Inr (VDict [(''statusCode'', VInt 500),
                    (''body'', VDict [(''error'',
                       VStr ''Object of type bytes is not JSON serializable'')])]))"
    by (simp add: middleware_calls_def bytes_middleware_def direct_app_def TypeError_def
        prod_eq_iff)
  moreover
  from middleware_short_circuit [where h = "hello_heap hello_handler [bytes_middleware False]"
      and e = "TypeError ''Object of type bytes is not JSON serializable''",
      OF hello_request_gateway _ gr _ bm bc gbp gbk] jb
  have "process_request sample_lib (hello_heap hello_handler [bytes_middleware False]) gateway_app
        (gateway_event ''/hello'' ''GET'') =
       ([Middleware_call ''bytes'' (VDict [(''headers'', VDict [])])],
        Inl (TypeError ''Object of type bytes is not JSON serializable''))"
    by (simp add: middleware_calls_def bytes_middleware_def gateway_app_def prod_eq_iff)
  ultimately show ?thesis
    using hello_request_direct r m p k j jb by (simp add: prod_eq_iff del: json_dumps.simps)
qed

text \<open>
  C1, as the claim states it, fails in the gateway variant: the body of the Response is
  the mapping \<^verbatim>\<open>{'error': 'denied'}\<close>, the body of the envelope is a string, its JSON text.
\<close>

theorem middleware_short_circuit_counterexample:
  "mw_process_request deny_middleware (VDict [(''headers'', VDict [])]) =
     Inr (VResponse (VInt 403) (VDict [(''error'', VStr ''denied'')]) VNone (VBool False)
            (VBool False))
   \<and> process_request sample_lib (hello_heap hello_handler [deny_middleware]) gateway_app
        (gateway_event ''/hello'' ''GET'') =
       ([Middleware_call ''deny'' (VDict [(''headers'', VDict [])])],
        Inr (VDict [(''statusCode'', VInt 403),
                    (''body'', VStr (''{'' @ dquote ''error'' @ '': '' @ dquote ''denied'' @ ''}''))]))
   \<and> VStr (''{'' @ dquote ''error'' @ '': '' @ dquote ''denied'' @ ''}'') \<noteq>
       VDict [(''error'', VStr ''denied'')]"
proof -
  have d: "dispatch sample_lib (hello_heap hello_handler [deny_middleware]) gateway_app
      (gateway_event ''/hello'' ''GET'') =
     ([Middleware_call ''deny'' (VDict [(''headers'', VDict [])])],
      Inr (VDict [(''statusCode'', VInt 403), (''body'', VDict [(''error'', VStr ''denied'')])]))"
    by (simp add: hello_dispatch_gateway deny_middleware_def Response2_def)
  from process_request_dict [OF d] show ?thesis
    by (simp add: encode_response_def gateway_app_def deny_middleware_def Response2_def
        encode_basestring_error encode_basestring_denied)
qed

section \<open>Exceptions\<close>




section \<open>Well-formed envelopes\<close>




section \<open>Defaults of the final encoding\<close>

text \<open>
  C4, as the code has it. When the mapping that reaches the last line of
  \<open>process_request\<close> has no \<^verbatim>\<open>body\<close>, the body of the envelope is the empty mapping in the
  direct variant and its JSON text \<^verbatim>\<open>{}\<close> in the gateway variant; when it has no
  \<^verbatim>\<open>statusCode\<close> (and its body can be emitted), the status code of the envelope is 500.
\<close>

theorem missing_fields_default:
  assumes "dispatch lib h app event = (tr, Inr (VDict d))"
  shows "(map_of d ''body'' = None \<longrightarrow>
            process_request lib h app event =
              (tr, Inr (VDict [(''statusCode'', get_default d ''statusCode'' (VInt 500)),
                               (''body'', if isApiGatewayEvent app then VStr ''{}'' else VDict [])])))
       \<and> (map_of d ''statusCode'' = None \<and>
          (isApiGatewayEvent app \<longrightarrow> serialisable (get_default d ''body'' (VDict []))) \<longrightarrow>
            (\<exists>b. process_request lib h app event =
                    (tr, Inr (VDict [(''statusCode'', VInt 500), (''body'', b)]))))"
proof (intro conjI impI)
  assume "map_of d ''body'' = None"
  then show "process_request lib h app event =
              (tr, Inr (VDict [(''statusCode'', get_default d ''statusCode'' (VInt 500)),
                               (''body'', if isApiGatewayEvent app then VStr ''{}'' else VDict [])]))"
    using process_request_dict [OF assms]
    by (simp add: encode_response_def get_default_def)
next
  assume *: "map_of d ''statusCode'' = None \<and>
          (isApiGatewayEvent app \<longrightarrow> serialisable (get_default d ''body'' (VDict [])))"
  show "\<exists>b. process_request lib h app event =
                    (tr, Inr (VDict [(''statusCode'', VInt 500), (''body'', b)]))"
  proof (cases "isApiGatewayEvent app \<and> \<not> is_str (get_default d ''body'' (VDict []))")
    case True
    with * obtain s where "json_dumps (get_default d ''body'' (VDict [])) = Inr s"
      by (auto simp: serialisable_def split: sum.splits)
    with True * show ?thesis
      using process_request_dict [OF assms]
      by (simp add: encode_response_gateway get_default_def)
  next
    case False
    with * show ?thesis
      using process_request_dict [OF assms]
      by (auto simp: encode_response_direct encode_response_str get_default_def)
  qed
qed

text \<open>The handler returns \<^verbatim>\<open>{'data': 1}\<close>, on the gateway application.\<close>

theorem missing_fields_default_witness:
  "dispatch sample_lib (hello_heap data_handler []) gateway_app
      (gateway_event ''/hello'' ''GET'') =
     ([Handler_call ''data'' (VDict [(''headers'', VDict [])])], Inr (VDict [(''data'', VInt 1)]))
   \<and> map_of [(''data'', VInt 1)] ''body'' = None
   \<and> map_of [(''data'', VInt 1)] ''statusCode'' = None
   \<and> serialisable (get_default [(''data'', VInt 1)] ''body'' (VDict []))
   \<and> process_request sample_lib (hello_heap data_handler []) gateway_app
        (gateway_event ''/hello'' ''GET'') =
       ([Handler_call ''data'' (VDict [(''headers'', VDict [])])],
        Inr (VDict [(''statusCode'', VInt 500), (''body'', VStr ''{}'')]))
   \<and> (\<exists>b. process_request sample_lib (hello_heap data_handler []) gateway_app
              (gateway_event ''/hello'' ''GET'') =
            ([Handler_call ''data'' (VDict [(''headers'', VDict [])])],
             Inr (VDict [(''statusCode'', VInt 500), (''body'', b)])))"
proof -
  have d: "dispatch sample_lib (hello_heap data_handler []) gateway_app
      (gateway_event ''/hello'' ''GET'') =
     ([Handler_call ''data'' (VDict [(''headers'', VDict [])])], Inr (VDict [(''data'', VInt 1)]))"
    by (simp add: hello_dispatch_gateway data_handler_def)
  have b: "map_of [(''data'', VInt 1)] ''body'' = None" by simp
  have s: "serialisable (get_default [(''data'', VInt 1)] ''body'' (VDict []))"
    by (simp add: serialisable_def get_default_def)
  have c: "map_of [(''data'', VInt 1)] ''statusCode'' = None \<and>
      (isApiGatewayEvent gateway_app \<longrightarrow>
         serialisable (get_default [(''data'', VInt 1)] ''body'' (VDict [])))"
    using s by simp
  from missing_fields_default [OF d, THEN conjunct1, rule_format, OF b]
    missing_fields_default [OF d, THEN conjunct2, rule_format, OF c]
  show ?thesis using d s
    by (simp add: gateway_app_def get_default_def)
qed

text \<open>
  C4, as the claim states it, fails: on the direct application the same handler gets the
  body \<^verbatim>\<open>{}\<close>, an empty mapping and not a message.
\<close>

theorem missing_fields_default_counterexample:
  "dispatch sample_lib (hello_heap data_handler []) direct_app
      (direct_event ''/hello'' ''GET'') =
     ([Handler_call ''data'' (VDict [(''headers'', VDict [])])], Inr (VDict [(''data'', VInt 1)]))
   \<and> map_of [(''data'', VInt 1)] ''body'' = None
   \<and> process_request sample_lib (hello_heap data_handler []) direct_app
        (direct_event ''/hello'' ''GET'') =
       ([Handler_call ''data'' (VDict [(''headers'', VDict [])])],
        Inr (VDict [(''statusCode'', VInt 500), (''body'', VDict [])]))
   \<and> \<not> is_str (VDict [])"
proof -
  have d: "dispatch sample_lib (hello_heap data_handler []) direct_app
      (direct_event ''/hello'' ''GET'') =
     ([Handler_call ''data'' (VDict [(''headers'', VDict [])])], Inr (VDict [(''data'', VInt 1)]))"
    by (simp add: hello_dispatch_direct data_handler_def)
  from process_request_dict [OF d] show ?thesis using d
    by (simp add: encode_response_def direct_app_def)
qed

section \<open>Handlers that return a mapping\<close>

text \<open>
  C9, as the code has it. When the middlewares of the chain pass and the handler returns
  the mapping \<open>d\<close>, the calls made are those of the chain and then the handler, and the
  envelope is built from \<^verbatim>\<open>d.get('statusCode', 500)\<close> and \<^verbatim>\<open>d.get('body', {})\<close>: in the direct
  variant, or when the body is a string, these two values are the status code and the
  body; in the gateway variant a body that is not a string is replaced by its JSON text
  when \<^verbatim>\<open>json.dumps\<close> accepts it, and when \<^verbatim>\<open>json.dumps\<close> raises, no envelope is built and
  the exception leaves \<open>process_request\<close>. A mapping with neither key yields status code
  500 and the body \<^verbatim>\<open>{}\<close>, the empty mapping in the direct variant and the two-character
  string in the gateway variant; nothing else of \<open>d\<close> is in the envelope.
\<close>

theorem handler_mapping_envelope:
  assumes "process_event lib event (source app) = Inr req"
      and "path req = VStr p" and "map_of (routes app) p = Some a"
      and "http_method req = VStr m" and "map_of (methods (h a)) m = Some mh"
      and "passes (middlewares mh) (req_params req) vs"
      and "fn_call (func mh) (last (req_params req # vs)) = Inr (VDict d)"
  shows "fst (process_request lib h app event) =
           middleware_calls (middlewares mh) (req_params req # vs) @
           [Handler_call (fn_name (func mh)) (last (req_params req # vs))]
       \<and> (\<not> isApiGatewayEvent app \<or> is_str (get_default d ''body'' (VDict [])) \<longrightarrow>
            snd (process_request lib h app event) =
              Inr (VDict [(''statusCode'', get_default d ''statusCode'' (VInt 500)),
                          (''body'', get_default d ''body'' (VDict []))]))
       \<and> (isApiGatewayEvent app \<and> \<not> is_str (get_default d ''body'' (VDict [])) \<and>
          json_dumps (get_default d ''body'' (VDict [])) = Inr s \<longrightarrow>
            snd (process_request lib h app event) =
              Inr (VDict [(''statusCode'', get_default d ''statusCode'' (VInt 500)),
                          (''body'', VStr s)]))
       \<and> (map_of d ''statusCode'' = None \<and> map_of d ''body'' = None \<longrightarrow>
            snd (process_request lib h app event) =
              Inr (VDict [(''statusCode'', VInt 500),
                          (''body'', if isApiGatewayEvent app then VStr ''{}'' else VDict [])]))
       \<and> (isApiGatewayEvent app \<and> \<not> is_str (get_default d ''body'' (VDict [])) \<and>
          json_dumps (get_default d ''body'' (VDict [])) = Inl e \<longrightarrow>
            snd (process_request lib h app event) = Inl e)"
proof -
  let ?tr = "middleware_calls (middlewares mh) (req_params req # vs) @
           [Handler_call (fn_name (func mh)) (last (req_params req # vs))]"
  have "dispatch lib h app event = (?tr, Inr (VDict d))"
    using dispatch_handler [where h = h, OF assms(1-5)] execute_from_handler [OF assms(6)] assms(7) by simp
  then have pr: "process_request lib h app event = (?tr, encode_response app (VDict d))"
    by (rule process_request_dict)
  show ?thesis
  proof (intro conjI impI)
    show "fst (process_request lib h app event) = ?tr" by (simp add: pr)
  next
    assume "\<not> isApiGatewayEvent app \<or> is_str (get_default d ''body'' (VDict []))"
    then show "snd (process_request lib h app event) =
              Inr (VDict [(''statusCode'', get_default d ''statusCode'' (VInt 500)),
                          (''body'', get_default d ''body'' (VDict []))])"
      by (auto simp: pr encode_response_direct encode_response_str)
  next
    assume "isApiGatewayEvent app \<and> \<not> is_str (get_default d ''body'' (VDict [])) \<and>
          json_dumps (get_default d ''body'' (VDict [])) = Inr s"
    then show "snd (process_request lib h app event) =
              Inr (VDict [(''statusCode'', get_default d ''statusCode'' (VInt 500)),
                          (''body'', VStr s)])"
      by (simp add: pr encode_response_gateway)
  next
    assume "map_of d ''statusCode'' = None \<and> map_of d ''body'' = None"
    then show "snd (process_request lib h app event) =
              Inr (VDict [(''statusCode'', VInt 500),
                          (''body'', if isApiGatewayEvent app then VStr ''{}'' else VDict [])])"
      by (simp add: pr encode_response_def)
  next
    assume "isApiGatewayEvent app \<and> \<not> is_str (get_default d ''body'' (VDict [])) \<and>
          json_dumps (get_default d ''body'' (VDict [])) = Inl e"
    then show "snd (process_request lib h app event) = Inl e"
      by (simp add: pr encode_response_gateway_raises)
  qed
qed

text \<open>One passing middleware, then the handler that returns \<^verbatim>\<open>{'data': 1}\<close>, on either
  application; the handler whose body is of bytes, on the gateway application.\<close>

theorem handler_mapping_envelope_witness:
  "process_event sample_lib (direct_event ''/hello'' ''GET'') (source direct_app) =
     Inr \<lparr>path = VStr ''/hello'', http_method = VStr ''GET'',
          req_params = VDict [(''headers'', VDict [])], identity = VNone\<rparr>
   \<and> map_of (routes direct_app) ''/hello'' = Some 0
   \<and> map_of (methods (hello_heap data_handler [tag_middleware] 0)) ''GET'' =
       Some \<lparr>func = data_handler, middlewares = [tag_middleware]\<rparr>
   \<and> passes [tag_middleware] (VDict [(''headers'', VDict [])])
       [VDict [(''tagged'', VDict [(''headers'', VDict [])])]]
   \<and> fn_call data_handler (VDict [(''tagged'', VDict [(''headers'', VDict [])])]) =
       Inr (VDict [(''data'', VInt 1)])
   \<and> process_request sample_lib (hello_heap data_handler [tag_middleware]) direct_app
        (direct_event ''/hello'' ''GET'') =
       ([Middleware_call ''tag'' (VDict [(''headers'', VDict [])]),
         Handler_call ''data'' (VDict [(''tagged'', VDict [(''headers'', VDict [])])])],
        Inr (VDict [(''statusCode'', VInt 500), (''body'', VDict [])]))
   \<and> json_dumps (get_default [(''data'', VInt 1)] ''body'' (VDict [])) = Inr ''{}''
   \<and> process_request sample_lib (hello_heap data_handler [tag_middleware]) gateway_app
        (gateway_event ''/hello'' ''GET'') =
       ([Middleware_call ''tag'' (VDict [(''headers'', VDict [])]),
         Handler_call ''data'' (VDict [(''tagged'', VDict [(''headers'', VDict [])])])],
        Inr (VDict [(''statusCode'', VInt 500), (''body'', VStr ''{}'')]))
   \<and> fn_call bytes_handler (VDict [(''headers'', VDict [])]) =
       Inr (VDict [(''statusCode'', VInt 200), (''body'', VBytes ''x'')])
   \<and> json_dumps (VBytes ''x'') =
       Inl (TypeError ''Object of type bytes is not JSON serializable'')
   \<and> process_request sample_lib (hello_heap bytes_handler []) gateway_app
        (gateway_event ''/hello'' ''GET'') =
       ([Handler_call ''bytes'' (VDict [(''headers'', VDict [])])],
        Inl (TypeError ''Object of type bytes is not JSON serializable''))"
proof -
  let ?h = "hello_heap data_handler [tag_middleware]"
  let ?mh = "\<lparr>func = data_handler, middlewares = [tag_middleware]\<rparr>"
  let ?req = "\<lparr>path = VStr ''/hello'', http_method = VStr ''GET'',
          req_params = VDict [(''headers'', VDict [])], identity = VNone\<rparr>"
  let ?greq = "\<lparr>path = VStr ''/hello'', http_method = VStr ''GET'',
          req_params = VDict [(''headers'', VDict [])], identity = VDict []\<rparr>"
  let ?tr = "[Middleware_call ''tag'' (VDict [(''headers'', VDict [])]),
         Handler_call ''data'' (VDict [(''tagged'', VDict [(''headers'', VDict [])])])]"
  have r: "map_of (routes direct_app) ''/hello'' = Some 0"
    by (simp add: direct_app_def)
  have gr: "map_of (routes gateway_app) ''/hello'' = Some 0"
    by (simp add: gateway_app_def)
  have m: "map_of (methods (?h 0)) ''GET'' = Some ?mh"
    by (simp add: hello_heap_def hello_route_def)
  have p: "passes (middlewares ?mh) (req_params ?req)
       [VDict [(''tagged'', VDict [(''headers'', VDict [])])]]"
    by (simp add: tag_middleware_def)
  have f: "fn_call (func ?mh)
       (last (req_params ?req # [VDict [(''tagged'', VDict [(''headers'', VDict [])])]])) =
       Inr (VDict [(''data'', VInt 1)])"
    by (simp add: data_handler_def)
  have gp: "passes (middlewares ?mh) (req_params ?greq)
       [VDict [(''tagged'', VDict [(''headers'', VDict [])])]]"
    by (simp add: tag_middleware_def)
  have gf: "fn_call (func ?mh)
       (last (req_params ?greq # [VDict [(''tagged'', VDict [(''headers'', VDict [])])]])) =
       Inr (VDict [(''data'', VInt 1)])"
    by (simp add: data_handler_def)
  have j: "json_dumps (get_default [(''data'', VInt 1)] ''body'' (VDict [])) = Inr ''{}''"
    by (simp add: get_default_def)
  from handler_mapping_envelope [where h = ?h and s = "[]", OF hello_request_direct _ r _ m p f]
  have "fst (process_request sample_lib ?h direct_app (direct_event ''/hello'' ''GET'')) = ?tr
     \<and> snd (process_request sample_lib ?h direct_app (direct_event ''/hello'' ''GET'')) =
        Inr (VDict [(''statusCode'', VInt 500), (''body'', VDict [])])"
    by (simp add: middleware_calls_def tag_middleware_def data_handler_def direct_app_def
        get_default_def)
  moreover
  from handler_mapping_envelope [where h = ?h and s = "''{}''",
      OF hello_request_gateway _ gr _ m gp gf] j
  have "fst (process_request sample_lib ?h gateway_app (gateway_event ''/hello'' ''GET'')) = ?tr
     \<and> snd (process_request sample_lib ?h gateway_app (gateway_event ''/hello'' ''GET'')) =
        Inr (VDict [(''statusCode'', VInt 500), (''body'', VStr ''{}'')])"
    by (simp add: middleware_calls_def tag_middleware_def data_handler_def gateway_app_def
        get_default_def)
  moreover
  have bm: "map_of (methods (hello_heap bytes_handler [] 0)) ''GET'' =
      Some \<lparr>func = bytes_handler, middlewares = []\<rparr>"
    by (simp add: hello_heap_def hello_route_def)
  have bp: "passes (middlewares \<lparr>func = bytes_handler, middlewares = []\<rparr>) (req_params ?greq) []"
    by simp
  have bf: "fn_call (func \<lparr>func = bytes_handler, middlewares = []\<rparr>)
      (last (req_params ?greq # [])) =
      Inr (VDict [(''statusCode'', VInt 200), (''body'', VBytes ''x'')])"
    by (simp add: bytes_handler_def)
  have jb: "json_dumps (VBytes ''x'') =
      Inl (TypeError ''Object of type bytes is not JSON serializable'')"
    by simp
  from handler_mapping_envelope [where h = "hello_heap bytes_handler []"
      and e = "TypeError ''Object of type bytes is not JSON serializable''",
      OF hello_request_gateway _ gr _ bm bp bf] jb
  have "process_request sample_lib (hello_heap bytes_handler []) gateway_app
        (gateway_event ''/hello'' ''GET'') =
       ([Handler_call ''bytes'' (VDict [(''headers'', VDict [])])],
        Inl (TypeError ''Object of type bytes is not JSON serializable''))"
    by (simp add: middleware_calls_def bytes_handler_def gateway_app_def get_default_def
        prod_eq_iff)
  ultimately show ?thesis
    using hello_request_direct r m p f j jb bf by (simp add: prod_eq_iff)
qed

text \<open>
  C9, as the claim states it, fails in the gateway variant: the body of the envelope is
  the string \<^verbatim>\<open>{}\<close>, not an empty mapping.
\<close>

theorem handler_mapping_envelope_counterexample:
  "fn_call data_handler (VDict [(''headers'', VDict [])]) = Inr (VDict [(''data'', VInt 1)])
   \<and> process_request sample_lib (hello_heap data_handler []) gateway_app
        (gateway_event ''/hello'' ''GET'') =
       ([Handler_call ''data'' (VDict [(''headers'', VDict [])])],
        Inr (VDict [(''statusCode'', VInt 500), (''body'', VStr ''{}'')]))
   \<and> VStr ''{}'' \<noteq> VDict []"
proof -
  have d: "dispatch sample_lib (hello_heap data_handler []) gateway_app
      (gateway_event ''/hello'' ''GET'') =
     ([Handler_call ''data'' (VDict [(''headers'', VDict [])])], Inr (VDict [(''data'', VInt 1)]))"
    by (simp add: hello_dispatch_gateway data_handler_def)
  from process_request_dict [OF d] show ?thesis
    by (simp add: encode_response_def gateway_app_def data_handler_def)
qed

section \<open>Normalisation of a direct-invocation event\<close>

lemma map_of_dict_merge:
  "distinct (map fst b) \<Longrightarrow> map_of (dict_merge a b) = map_of a ++ map_of b"
proof (induction b arbitrary: a)
  case Nil
  then show ?case by (simp add: dict_merge_def)
next
  case (Cons kv b)
  obtain k v where kv: "kv = (k, v)" by (cases kv)
  from Cons.prems kv have k: "k \<notin> dom (map_of b)" and d: "distinct (map fst b)"
    by (auto simp: dom_map_of_conv_image_fst)
  have "map_of (dict_merge a (kv # b)) = map_of (dict_merge (AList.update k v a) b)"
    by (simp add: dict_merge_def kv)
  also have "\<dots> = (map_of a)(k \<mapsto> v) ++ map_of b"
    by (simp only: Cons.IH [OF d] update_conv')
  also have "\<dots> = map_of a ++ (map_of b)(k \<mapsto> v)"
    using k by (auto simp: map_add_def fun_eq_iff split: option.splits)
  finally show ?case by (simp only: kv map_of.simps fst_conv snd_conv)
qed

lemma sample_json_loads:
  "json_loads sample_lib (VStr sample_body) = Inr (VDict [(''b'', VInt 2)])"
  by (simp add: sample_lib_def)

text \<open>
  C5, as the code has it. Let a direct-invocation event carry a path and a method in
  \<^verbatim>\<open>requestContext.http\<close>, query-string parameters \<open>q\<close> (a mapping, or absent and then
  empty), a non-empty string as body that \<^verbatim>\<open>json.loads\<close> parses to the object \<open>b\<close>, and no
  true \<^verbatim>\<open>isBase64Encoded\<close>. Then normalisation succeeds and the params of the request are
  \<^verbatim>\<open>{**q, **b}\<close> with the entry \<^verbatim>\<open>headers\<close> set to the headers of the event (an empty mapping
  when absent): as a map, the union of \<open>q\<close> and \<open>b\<close> in which \<open>b\<close> overrides \<open>q\<close>, and in which
  the key \<^verbatim>\<open>headers\<close> overrides both.
\<close>

theorem direct_params_union:
  fixes ev :: "(string \<times> pyval) list"
  defines "hdrs \<equiv> get_default ev ''headers'' (VDict [])"
  assumes "map_of ev ''requestContext'' = Some rc"
      and "subscript rc ''http'' = Inr http"
      and "subscript http ''path'' = Inr p"
      and "subscript http ''method'' = Inr m"
      and "get_default ev ''queryStringParameters'' (VDict []) = VDict q"
      and "map_of ev ''body'' = Some (VStr s)" and "s \<noteq> []"
      and "\<not> truthy (get_default ev ''isBase64Encoded'' (VBool False))"
      and "json_loads lib (VStr s) = Inr (VDict b)" and "distinct (map fst b)"
  shows "process_event lib (VDict ev) ''function_url'' =
           Inr \<lparr>path = p, http_method = m,
                req_params = VDict (AList.update ''headers'' hdrs (dict_merge q b)),
                identity = VNone\<rparr>
       \<and> map_of (AList.update ''headers'' hdrs (dict_merge q b)) =
           (map_of q ++ map_of b)(''headers'' \<mapsto> hdrs)"
  using assms
  by (simp add: process_event_def process_function_url_event_def RequestInfo_init_def
      aggregate_params_def get_default_def update_conv' map_of_dict_merge)

text \<open>Query parameters \<^verbatim>\<open>a=1, b=0\<close> and a body that parses to the object with \<^verbatim>\<open>b\<close> set to 2.\<close>

theorem direct_params_union_witness:
  "get_default [(''a'', VInt 1), (''b'', VInt 0)] ''b'' VNone = VInt 0
   \<and> json_loads sample_lib (VStr sample_body) = Inr (VDict [(''b'', VInt 2)])
   \<and> sample_body \<noteq> []
   \<and> process_event sample_lib query_body_event ''function_url'' =
       Inr \<lparr>path = VStr ''/hello'', http_method = VStr ''GET'',
            req_params = VDict [(''a'', VInt 1), (''b'', VInt 2), (''headers'', VDict [])],
            identity = VNone\<rparr>"
  using direct_params_union [where lib = sample_lib and s = sample_body
      and ev = "[(''requestContext'',
             VDict [(''http'', VDict [(''path'', VStr ''/hello''), (''method'', VStr ''GET'')])]),
            (''queryStringParameters'', VDict [(''a'', VInt 1), (''b'', VInt 0)]),
            (''body'', VStr sample_body)]"
      and rc = "VDict [(''http'', VDict [(''path'', VStr ''/hello''), (''method'', VStr ''GET'')])]"
      and http = "VDict [(''path'', VStr ''/hello''), (''method'', VStr ''GET'')]"
      and p = "VStr ''/hello''" and m = "VStr ''GET''"
      and q = "[(''a'', VInt 1), (''b'', VInt 0)]" and b = "[(''b'', VInt 2)]"]
  by (simp add: sample_json_loads query_body_event_def get_default_def dict_merge_def)
    (simp add: sample_body_def)

text \<open>
  C5, as the claim states it, fails: for the same event the params have the key
  \<^verbatim>\<open>headers\<close>, which is neither a query-string parameter nor a field of the body.
\<close>

theorem direct_params_union_counterexample:
  "process_event sample_lib query_body_event ''function_url'' =
     Inr \<lparr>path = VStr ''/hello'', http_method = VStr ''GET'',
          req_params = VDict [(''a'', VInt 1), (''b'', VInt 2), (''headers'', VDict [])],
          identity = VNone\<rparr>
   \<and> map_of [(''a'', VInt 1), (''b'', VInt 2), (''headers'', VDict [])] ''headers'' =
       Some (VDict [])
   \<and> (map_of [(''a'', VInt 1), (''b'', VInt 0)] ++ map_of [(''b'', VInt 2)]) ''headers'' = None"
proof -
  have "truthy (VStr sample_body)" by (simp add: sample_body_def)
  then show ?thesis
    by (simp add: process_event_def process_function_url_event_def RequestInfo_init_def
        aggregate_params_def query_body_event_def sample_json_loads dict_merge_def)
qed

section \<open>Registration\<close>

text \<open>
  What the loops of the decorator leave in the store: only the Route at \<open>a\<close> changes, and
  each method of the list is bound to the handler with the given chain.
\<close>

lemma use_middlewares_result:
  "map_of (methods (h a)) m = Some mh \<Longrightarrow>
   \<exists>h'. use_middlewares h a m mws = (None, h')
      \<and> (\<forall>a'. a' \<noteq> a \<longrightarrow> h' a' = h a')
      \<and> map_of (methods (h' a)) =
          (map_of (methods (h a)))(m \<mapsto> mh\<lparr>middlewares := middlewares mh @ mws\<rparr>)"
proof (induction mws arbitrary: h mh)
  case Nil
  then show ?case by (auto simp: fun_eq_iff)
next
  case (Cons mw mws)
  let ?mh = "mh\<lparr>middlewares := middlewares mh @ [mw]\<rparr>"
  let ?h = "h(a := (h a)\<lparr>methods := AList.update m ?mh (methods (h a))\<rparr>)"
  have step: "Route_use_middleware h a m mw = Inr ?h"
    using Cons.prems by (simp add: Route_use_middleware_def)
  have "map_of (methods (?h a)) m = Some ?mh"
    by (simp add: update_conv')
  from Cons.IH [of ?h ?mh, OF this] obtain h' where h':
    "use_middlewares ?h a m mws = (None, h')"
    "\<forall>a'. a' \<noteq> a \<longrightarrow> h' a' = ?h a'"
    "map_of (methods (h' a)) =
       (map_of (methods (?h a)))(m \<mapsto> ?mh\<lparr>middlewares := middlewares ?mh @ mws\<rparr>)"
    by blast
  have "use_middlewares h a m (mw # mws) = (None, h')"
    using step h'(1) by simp
  moreover have "\<forall>a'. a' \<noteq> a \<longrightarrow> h' a' = h a'"
    using h'(2) by simp
  moreover have "map_of (methods (h' a)) =
      (map_of (methods (h a)))(m \<mapsto> mh\<lparr>middlewares := middlewares mh @ mw # mws\<rparr>)"
    using h'(3) by (simp add: update_conv')
  ultimately show ?case by blast
qed

lemma bind_methods_result:
  "\<exists>h'. bind_methods h a ms f mws = (None, h')
      \<and> (\<forall>a'. a' \<noteq> a \<longrightarrow> h' a' = h a')
      \<and> (\<forall>m. map_of (methods (h' a)) m =
            (if m \<in> set ms then Some \<lparr>func = f, middlewares = mws\<rparr>
             else map_of (methods (h a)) m))"
proof (induction ms arbitrary: h)
  case Nil
  then show ?case by simp
next
  case (Cons m ms)
  let ?h1 = "Route_route h a m f"
  have b: "map_of (methods (?h1 a)) m = Some (MethodHandler_init f)"
    by (simp add: Route_route_def update_conv')
  from use_middlewares_result [where h = ?h1 and mws = mws, OF b] obtain h2 where h2:
    "use_middlewares ?h1 a m mws = (None, h2)"
    "\<forall>a'. a' \<noteq> a \<longrightarrow> h2 a' = ?h1 a'"
    "map_of (methods (h2 a)) =
       (map_of (methods (?h1 a)))(m \<mapsto> (MethodHandler_init f)\<lparr>middlewares :=
          middlewares (MethodHandler_init f) @ mws\<rparr>)"
    by blast
  from Cons.IH [of h2] obtain h' where h':
    "bind_methods h2 a ms f mws = (None, h')"
    "\<forall>a'. a' \<noteq> a \<longrightarrow> h' a' = h2 a'"
    "\<forall>x. map_of (methods (h' a)) x =
            (if x \<in> set ms then Some \<lparr>func = f, middlewares = mws\<rparr>
             else map_of (methods (h2 a)) x)"
    by blast
  have "bind_methods h a (m # ms) f mws = (None, h')"
    using h2(1) h'(1) by simp
  moreover have "\<forall>a'. a' \<noteq> a \<longrightarrow> h' a' = h a'"
    using h2(2) h'(2) by (simp add: Route_route_def)
  moreover have "\<forall>x. map_of (methods (h' a)) x =
            (if x \<in> set (m # ms) then Some \<lparr>func = f, middlewares = mws\<rparr>
             else map_of (methods (h a)) x)"
    using h'(3) h2(3) by (simp add: Route_route_def update_conv' MethodHandler_init_def)
  ultimately show ?case by blast
qed

lemma LambdaFlask_route_known:
  "map_of (routes app) p = Some a \<Longrightarrow> LambdaFlask_route app st p ms = (a, app, st)"
  by (simp add: LambdaFlask_route_def)

lemma LambdaFlask_route_new:
  "map_of (routes app) p = None \<Longrightarrow>
   LambdaFlask_route app st p ms =
     (next_addr st, app\<lparr>routes := AList.update p (next_addr st) (routes app)\<rparr>,
      st\<lparr>heap := (heap st)(next_addr st := Route_init p ms), next_addr := Suc (next_addr st)\<rparr>)"
  by (simp add: LambdaFlask_route_def)

lemma LambdaFlask_route_twice:
  "LambdaFlask_route app st p ms1 = (a, app1, st1) \<Longrightarrow>
   LambdaFlask_route app1 st1 p ms2 = (a, app1, st1)"
  by (cases "map_of (routes app) p")
    (auto simp: LambdaFlask_route_def update_conv')

lemma route_decorator_new:
  assumes "map_of (routes app) p = None"
  shows "\<exists>h'. route_decorator app st p (Some l) mws f =
           (None, app\<lparr>routes := AList.update p (next_addr st) (routes app)\<rparr>,
            \<lparr>heap = h', next_addr = Suc (next_addr st)\<rparr>)
         \<and> (\<forall>m. map_of (methods (h' (next_addr st))) m =
               (if m \<in> set l
                then Some \<lparr>func = f, middlewares = (case mws of None \<Rightarrow> [] | Some x \<Rightarrow> x)\<rparr>
                else None))"
proof -
  let ?a = "next_addr st"
  let ?h0 = "(heap st)(?a := Route_init p (Some l))"
  from bind_methods_result [of ?h0 ?a l f "case mws of None \<Rightarrow> [] | Some x \<Rightarrow> x"]
  obtain h' where h':
    "bind_methods ?h0 ?a l f (case mws of None \<Rightarrow> [] | Some x \<Rightarrow> x) = (None, h')"
    "\<forall>m. map_of (methods (h' ?a)) m =
        (if m \<in> set l
         then Some \<lparr>func = f, middlewares = (case mws of None \<Rightarrow> [] | Some x \<Rightarrow> x)\<rparr>
         else map_of (methods (?h0 ?a)) m)"
    by blast
  have "route_decorator app st p (Some l) mws f =
           (None, app\<lparr>routes := AList.update p ?a (routes app)\<rparr>,
            \<lparr>heap = h', next_addr = Suc ?a\<rparr>)"
    using assms h'(1) by (simp add: route_decorator_def LambdaFlask_route_new)
  moreover have "\<forall>m. map_of (methods (h' ?a)) m =
        (if m \<in> set l
         then Some \<lparr>func = f, middlewares = (case mws of None \<Rightarrow> [] | Some x \<Rightarrow> x)\<rparr>
         else None)"
    using h'(2) by (simp add: Route_init_def)
  ultimately show ?thesis by blast
qed

lemma route_decorator_known:
  assumes "map_of (routes app) p = Some a"
  shows "\<exists>h'. route_decorator app st p (Some l) mws f = (None, app, st\<lparr>heap := h'\<rparr>)
         \<and> (\<forall>m. map_of (methods (h' a)) m =
               (if m \<in> set l
                then Some \<lparr>func = f, middlewares = (case mws of None \<Rightarrow> [] | Some x \<Rightarrow> x)\<rparr>
                else map_of (methods (heap st a)) m))"
proof -
  from bind_methods_result [of "heap st" a l f "case mws of None \<Rightarrow> [] | Some x \<Rightarrow> x"]
  obtain h' where h':
    "bind_methods (heap st) a l f (case mws of None \<Rightarrow> [] | Some x \<Rightarrow> x) = (None, h')"
    "\<forall>m. map_of (methods (h' a)) m =
        (if m \<in> set l
         then Some \<lparr>func = f, middlewares = (case mws of None \<Rightarrow> [] | Some x \<Rightarrow> x)\<rparr>
         else map_of (methods (heap st a)) m)"
    by blast
  have "route_decorator app st p (Some l) mws f = (None, app, st\<lparr>heap := h'\<rparr>)"
    using assms h'(1) by (simp add: route_decorator_def LambdaFlask_route_known)
  with h'(2) show ?thesis by blast
qed

text \<open>
  C6. Asking \<open>LambdaFlask_route\<close> for a path a second time, with whatever methods,
  returns the address of the Route stored the first time and changes neither the
  application nor the store: no Route is created. When a path that was unknown is
  registered through the decorator for the methods \<open>l1\<close> and then again for the methods
  \<open>l2\<close>, neither registration raises, the route table is the same after the second
  registration as after the first, one Route was allocated, and that Route serves the
  union: the methods bound on it are exactly those of \<open>l1\<close> and \<open>l2\<close>, each method of \<open>l2\<close>
  with the second handler and each method only in \<open>l1\<close> with the first, and for each of
  these methods \<open>handle_request\<close> on that Route runs the chain and the handler bound to it
  (it does not answer 405).
\<close>

theorem route_registration_idempotent:
  "(case LambdaFlask_route app st p ms1 of
      (a, app1, st1) \<Rightarrow> LambdaFlask_route app1 st1 p ms2 = (a, app1, st1))
   \<and> (map_of (routes app) p = None \<longrightarrow>
       (case route_decorator app st p (Some l1) mws1 f1 of
          (e1, app1, st1) \<Rightarrow>
            (case route_decorator app1 st1 p (Some l2) mws2 f2 of
               (e2, app2, st2) \<Rightarrow>
                 e1 = None \<and> e2 = None
                 \<and> map_of (routes app1) p = Some (next_addr st)
                 \<and> app2 = app1
                 \<and> next_addr st1 = Suc (next_addr st) \<and> next_addr st2 = next_addr st1
                 \<and> dom (map_of (methods (heap st2 (next_addr st)))) = set l1 \<union> set l2
                 \<and> (\<forall>m \<in> set l2. map_of (methods (heap st2 (next_addr st))) m =
                       Some \<lparr>func = f2,
                             middlewares = (case mws2 of None \<Rightarrow> [] | Some x \<Rightarrow> x)\<rparr>)
                 \<and> (\<forall>m \<in> set l1 - set l2. map_of (methods (heap st2 (next_addr st))) m =
                       Some \<lparr>func = f1,
                             middlewares = (case mws1 of None \<Rightarrow> [] | Some x \<Rightarrow> x)\<rparr>)
                 \<and> (\<forall>m \<in> set l2. \<forall>ps.
                       handle_request (heap st2 (next_addr st)) (VStr m) ps =
                         execute \<lparr>func = f2,
                                  middlewares = (case mws2 of None \<Rightarrow> [] | Some x \<Rightarrow> x)\<rparr> ps)
                 \<and> (\<forall>m \<in> set l1 - set l2. \<forall>ps.
                       handle_request (heap st2 (next_addr st)) (VStr m) ps =
                         execute \<lparr>func = f1,
                                  middlewares = (case mws1 of None \<Rightarrow> [] | Some x \<Rightarrow> x)\<rparr> ps))))"
proof (intro conjI impI)
  show "case LambdaFlask_route app st p ms1 of
      (a, app1, st1) \<Rightarrow> LambdaFlask_route app1 st1 p ms2 = (a, app1, st1)"
    using LambdaFlask_route_twice by (auto split: prod.splits)
next
  assume fresh: "map_of (routes app) p = None"
  let ?a = "next_addr st"
  let ?app1 = "app\<lparr>routes := AList.update p ?a (routes app)\<rparr>"
  from route_decorator_new [OF fresh, of st l1 mws1 f1] obtain h1 where h1:
    "route_decorator app st p (Some l1) mws1 f1 =
       (None, ?app1, \<lparr>heap = h1, next_addr = Suc ?a\<rparr>)"
    "\<forall>m. map_of (methods (h1 ?a)) m =
        (if m \<in> set l1
         then Some \<lparr>func = f1, middlewares = (case mws1 of None \<Rightarrow> [] | Some x \<Rightarrow> x)\<rparr>
         else None)"
    by blast
  have known: "map_of (routes ?app1) p = Some ?a"
    by (simp add: update_conv')
  from route_decorator_known [OF known, of "\<lparr>heap = h1, next_addr = Suc ?a\<rparr>" l2 mws2 f2]
  obtain h2 where h2:
    "route_decorator ?app1 \<lparr>heap = h1, next_addr = Suc ?a\<rparr> p (Some l2) mws2 f2 =
       (None, ?app1, \<lparr>heap = h1, next_addr = Suc ?a\<rparr>\<lparr>heap := h2\<rparr>)"
    "\<forall>m. map_of (methods (h2 ?a)) m =
        (if m \<in> set l2
         then Some \<lparr>func = f2, middlewares = (case mws2 of None \<Rightarrow> [] | Some x \<Rightarrow> x)\<rparr>
         else map_of (methods (h1 ?a)) m)"
    by auto
  have s2: "\<forall>m \<in> set l2. \<forall>ps. handle_request (h2 ?a) (VStr m) ps =
      execute \<lparr>func = f2, middlewares = (case mws2 of None \<Rightarrow> [] | Some x \<Rightarrow> x)\<rparr> ps"
    using h2(2) by (simp add: handle_request_bound)
  have s1: "\<forall>m \<in> set l1 - set l2. \<forall>ps. handle_request (h2 ?a) (VStr m) ps =
      execute \<lparr>func = f1, middlewares = (case mws1 of None \<Rightarrow> [] | Some x \<Rightarrow> x)\<rparr> ps"
    using h1(2) h2(2) by (simp add: handle_request_bound)
  have "dom (map_of (methods (h2 ?a))) = set l1 \<union> set l2"
    using h1(2) h2(2) by (auto simp: dom_def)
  then show "case route_decorator app st p (Some l1) mws1 f1 of
          (e1, app1, st1) \<Rightarrow>
            (case route_decorator app1 st1 p (Some l2) mws2 f2 of
               (e2, app2, st2) \<Rightarrow>
                 e1 = None \<and> e2 = None
                 \<and> map_of (routes app1) p = Some (next_addr st)
                 \<and> app2 = app1
                 \<and> next_addr st1 = Suc (next_addr st) \<and> next_addr st2 = next_addr st1
                 \<and> dom (map_of (methods (heap st2 (next_addr st)))) = set l1 \<union> set l2
                 \<and> (\<forall>m \<in> set l2. map_of (methods (heap st2 (next_addr st))) m =
                       Some \<lparr>func = f2,
                             middlewares = (case mws2 of None \<Rightarrow> [] | Some x \<Rightarrow> x)\<rparr>)
                 \<and> (\<forall>m \<in> set l1 - set l2. map_of (methods (heap st2 (next_addr st))) m =
                       Some \<lparr>func = f1,
                             middlewares = (case mws1 of None \<Rightarrow> [] | Some x \<Rightarrow> x)\<rparr>)
                 \<and> (\<forall>m \<in> set l2. \<forall>ps.
                       handle_request (heap st2 (next_addr st)) (VStr m) ps =
                         execute \<lparr>func = f2,
                                  middlewares = (case mws2 of None \<Rightarrow> [] | Some x \<Rightarrow> x)\<rparr> ps)
                 \<and> (\<forall>m \<in> set l1 - set l2. \<forall>ps.
                       handle_request (heap st2 (next_addr st)) (VStr m) ps =
                         execute \<lparr>func = f1,
                                  middlewares = (case mws1 of None \<Rightarrow> [] | Some x \<Rightarrow> x)\<rparr> ps))"
    using h1 h2 known s1 s2 by simp
qed

text \<open>\<^verbatim>\<open>/hello\<close> registered for \<^verbatim>\<open>GET\<close> and then for \<^verbatim>\<open>POST\<close>: one Route, at address 0, on
  which \<open>handle_request\<close> calls the first handler for \<^verbatim>\<open>GET\<close> and the second for \<^verbatim>\<open>POST\<close>.\<close>

theorem route_registration_idempotent_witness:
  "map_of (routes empty_app) ''/hello'' = None
   \<and> LambdaFlask_route (fst (snd hello_registered)) (snd (snd hello_registered)) ''/hello''
        (Some [''POST'']) =
       (0, fst (snd hello_registered), snd (snd hello_registered))
   \<and> fst hello_registered_twice = None
   \<and> map_of (routes (fst (snd hello_registered_twice))) ''/hello'' = Some 0
   \<and> next_addr (snd (snd hello_registered_twice)) = 1
   \<and> dom (map_of (methods (heap (snd (snd hello_registered_twice)) 0))) = {''GET'', ''POST''}
   \<and> map_of (methods (heap (snd (snd hello_registered_twice)) 0)) ''GET'' =
       Some \<lparr>func = hello_handler, middlewares = []\<rparr>
   \<and> map_of (methods (heap (snd (snd hello_registered_twice)) 0)) ''POST'' =
       Some \<lparr>func = data_handler, middlewares = []\<rparr>
   \<and> handle_request (heap (snd (snd hello_registered_twice)) 0) (VStr ''GET'') VNone =
       ([Handler_call ''hello'' VNone],
        Inr (VDict [(''statusCode'', VInt 200), (''body'', VStr ''hello'')]))
   \<and> handle_request (heap (snd (snd hello_registered_twice)) 0) (VStr ''POST'') VNone =
       ([Handler_call ''data'' VNone], Inr (VDict [(''data'', VInt 1)]))"
proof -
  have fresh: "map_of (routes empty_app) ''/hello'' = None"
    by (simp add: empty_app_def)
  have n: "next_addr empty_store = 0"
    by (simp add: empty_store_def)
  from route_registration_idempotent [where app = empty_app and st = empty_store
      and p = "''/hello''" and ?l1.0 = "[''GET'']" and ?l2.0 = "[''POST'']"
      and ?mws1.0 = None and ?mws2.0 = None and ?f1.0 = hello_handler and ?f2.0 = data_handler,
      THEN conjunct2, rule_format, OF fresh]
  have "fst hello_registered_twice = None
   \<and> map_of (routes (fst (snd hello_registered_twice))) ''/hello'' = Some 0
   \<and> next_addr (snd (snd hello_registered_twice)) = 1
   \<and> dom (map_of (methods (heap (snd (snd hello_registered_twice)) 0))) = {''GET'', ''POST''}
   \<and> map_of (methods (heap (snd (snd hello_registered_twice)) 0)) ''GET'' =
       Some \<lparr>func = hello_handler, middlewares = []\<rparr>
   \<and> map_of (methods (heap (snd (snd hello_registered_twice)) 0)) ''POST'' =
       Some \<lparr>func = data_handler, middlewares = []\<rparr>
   \<and> handle_request (heap (snd (snd hello_registered_twice)) 0) (VStr ''GET'') VNone =
       execute \<lparr>func = hello_handler, middlewares = []\<rparr> VNone
   \<and> handle_request (heap (snd (snd hello_registered_twice)) 0) (VStr ''POST'') VNone =
       execute \<lparr>func = data_handler, middlewares = []\<rparr> VNone"
    unfolding hello_registered_twice_def hello_registered_def n
    by (auto split: prod.splits)
  moreover have "LambdaFlask_route (fst (snd hello_registered)) (snd (snd hello_registered))
        ''/hello'' (Some [''POST'']) =
       (0, fst (snd hello_registered), snd (snd hello_registered))"
    by (simp add: hello_registered_def route_decorator_def LambdaFlask_route_def empty_app_def
        empty_store_def split: prod.splits)
  ultimately show ?thesis
    using fresh by (simp add: execute_def hello_handler_def data_handler_def)
qed

end
